theory Spec2Isabelle
  imports Main "HOL-Library.Char_ord" "HOL-Library.List_Lexorder" "HOL-Library.Multiset"
begin

section \<open>Go library functions used by the program\<close>

text \<open>
  Go strings are byte sequences; they are modelled as \<open>string\<close> (a list of \<open>char\<close>,
  one per byte).  The functions of this section model the Go standard library at the
  arguments the program passes; every other definition is translated from
  \<^verbatim>\<open>main.go\<close> or from the second program of the repository, the earlier
  account-keyed variant (\<^verbatim>\<open>src/unnamed/part_000\<close>), whose definitions carry the
  prefix \<open>v0_\<close> where the name is also used by \<^verbatim>\<open>main.go\<close>.
\<close>

subsection \<open>strings.Join, strings.ReplaceAll\<close>

fun Join :: "string list \<Rightarrow> string \<Rightarrow> string" where
  "Join [] sep = []"
| "Join [x] sep = x"
| "Join (x # y # ys) sep = x @ sep @ Join (y # ys) sep"

text \<open>
  \<^verbatim>\<open>strings.ReplaceAll(s, old, new)\<close> for a non-empty \<open>old\<close>: the occurrences
  of \<open>old\<close> are found from left to right, without overlap.  The program only calls it
  with the one-byte pattern \<^verbatim>\<open>"'"\<close>; the empty pattern (which Go handles rune by
  rune) is left unspecified.
\<close>

function ReplaceAll :: "string \<Rightarrow> string \<Rightarrow> string \<Rightarrow> string" where
  "ReplaceAll [] (c # cs) new = []"
| "ReplaceAll (x # xs) (c # cs) new =
     (if take (length (c # cs)) (x # xs) = c # cs
      then new @ ReplaceAll (drop (length (c # cs)) (x # xs)) (c # cs) new
      else x # ReplaceAll xs (c # cs) new)"
| "ReplaceAll s [] new = undefined"
  by pat_completeness auto
termination
  by (relation "measure (\<lambda>(s, old, new). length s)") auto

subsection \<open>Decimal digits: time.appendInt\<close>

definition digit :: "nat \<Rightarrow> char" where
  "digit n = ''0123456789'' ! n"

fun decimal :: "nat \<Rightarrow> string" where
  "decimal n = (if n < 10 then [digit n] else decimal (n div 10) @ [digit (n mod 10)])"

declare decimal.simps [simp del]

text \<open>
  \<^verbatim>\<open>appendInt(b, x, width)\<close> of package \<^verbatim>\<open>time\<close>: a minus sign for a negative
  \<open>x\<close>, then the decimal digits of \<open>|x|\<close>, padded with zeros on the left to at least
  \<open>width\<close> digits.
\<close>

definition appendInt :: "int \<Rightarrow> nat \<Rightarrow> string" where
  "appendInt x width =
     (let ds = decimal (nat \<bar>x\<bar>)
      in (if x < 0 then ''-'' else []) @ replicate (width - length ds) CHR ''0'' @ ds)"

subsection \<open>time.Time: UTC, Format and String\<close>

text \<open>
  A \<^verbatim>\<open>time.Time\<close> is an instant (whole seconds since 1970-01-01T00:00:00Z, rounded
  down, and the nanoseconds within that second) together with a location, of which the
  formatting functions read the offset in effect at the instant (seconds east of UTC)
  and the abbreviation of the zone (empty when the zone has none, as for the fixed
  zones a database driver builds from a numeric offset).
\<close>

record Time =
  unixSec :: int
  nsec :: nat
  offset :: int
  zone :: string

definition UTC :: "Time \<Rightarrow> Time" where
  "UTC t = t\<lparr>offset := 0, zone := ''UTC''\<rparr>"

text \<open>
  Package \<^verbatim>\<open>time\<close> counts "absolute" seconds from January 1 of the year
  \<open>absoluteZeroYear\<close>, in an unsigned 64-bit integer; 365.2425 is 146097 / 400.
\<close>

definition absoluteZeroYear :: int where
  "absoluteZeroYear = - 292277022399"

definition unixToInternal :: int where
  "unixToInternal = (1969 * 365 + 1969 div 4 - 1969 div 100 + 1969 div 400) * 86400"

definition internalToAbsolute :: int where
  "internalToAbsolute = - ((absoluteZeroYear - 1) * 146097 div 400 * 86400)"

definition abs_sec :: "Time \<Rightarrow> int" where
  "abs_sec t = (unixSec t + offset t + (unixToInternal + internalToAbsolute)) mod 2 ^ 64"

definition isLeap :: "int \<Rightarrow> bool" where
  "isLeap year \<longleftrightarrow> year mod 4 = 0 \<and> (year mod 100 \<noteq> 0 \<or> year mod 400 = 0)"

definition daysBefore :: "int list" where
  "daysBefore = [0, 31, 59, 90, 120, 151, 181, 212, 243, 273, 304, 334, 365]"

text \<open>
  \<^verbatim>\<open>absDate(abs, full)\<close>: the year and the day of the year (from 0) first, by
  cutting off cycles of 400, 100, 4 and 1 years; then the month (1 to 12) and the day
  of the month (from 1).
\<close>

definition absDate_year :: "int \<Rightarrow> int \<times> int" where
  "absDate_year a =
     (let d = a div 86400;
          n = d div 146097;
          y = 400 * n;
          d = d - 146097 * n;
          n = d div 36524;
          n = n - n div 4;
          y = y + 100 * n;
          d = d - 36524 * n;
          n = d div 1461;
          y = y + 4 * n;
          d = d - 1461 * n;
          n = d div 365;
          n = n - n div 4;
          y = y + n;
          d = d - 365 * n
      in (y + absoluteZeroYear, d))"

definition month_day :: "int \<Rightarrow> int \<times> int" where
  "month_day day =
     (let month = day div 31;
          e = daysBefore ! nat (month + 1)
      in if day \<ge> e then (month + 2, day - e + 1)
         else (month + 1, day - daysBefore ! nat month + 1))"

definition absDate :: "int \<Rightarrow> int \<times> int \<times> int" where
  "absDate a =
     (let (year, yday) = absDate_year a
      in if isLeap year \<and> yday > 31 + 29 - 1 then
           (let (month, day) = month_day (yday - 1) in (year, month, day))
         else if isLeap year \<and> yday = 31 + 29 - 1 then (year, 2, 29)
         else (let (month, day) = month_day yday in (year, month, day)))"

definition absClock :: "int \<Rightarrow> int \<times> int \<times> int" where
  "absClock a =
     (let sec = a mod 86400;
          hour = sec div 3600;
          sec = sec - hour * 3600;
          minute = sec div 60;
          sec = sec - minute * 60
      in (hour, minute, sec))"

text \<open>
  \<^verbatim>\<open>t.Format("2006-01-02T15:04:05Z")\<close>: the layout is the year (at least four
  digits), month, day, hour, minute and second (two digits each) of \<open>t\<close> in its own
  location, with the literal bytes of the layout between them; the final \<^verbatim>\<open>Z\<close> is a
  literal byte, not a zone field.
\<close>

definition Format_date_time :: "string \<Rightarrow> Time \<Rightarrow> string" where
  "Format_date_time sep t =
     (let (year, month, day) = absDate (abs_sec t);
          (hour, minute, sec) = absClock (abs_sec t)
      in appendInt year 4 @ ''-'' @ appendInt month 2 @ ''-'' @ appendInt day 2 @ sep @
         appendInt hour 2 @ '':'' @ appendInt minute 2 @ '':'' @ appendInt sec 2)"

definition Format_Z :: "Time \<Rightarrow> string" where
  "Format_Z t = Format_date_time ''T'' t @ ''Z''"

text \<open>
  \<^verbatim>\<open>t.String()\<close>, which the verb \<^verbatim>\<open>%v\<close> prints for a \<^verbatim>\<open>time.Time\<close>: the layout
  \<^verbatim>\<open>"2006-01-02 15:04:05.999999999 -0700 MST"\<close>.  The fraction is left out when
  zero and printed without trailing zeros otherwise; the numeric zone is the sign and
  the hours and minutes of the offset; the abbreviation is printed in the same numeric
  form when the zone has none.  (Times read from a database carry no monotonic clock
  reading, which \<^verbatim>\<open>String\<close> would append.)
\<close>

definition frac9 :: "nat \<Rightarrow> string" where
  "frac9 ns =
     (if ns = 0 then []
      else ''.'' @ rev (dropWhile (\<lambda>c. c = CHR ''0'') (rev (appendInt (int ns) 9))))"

definition numTZ :: "int \<Rightarrow> string" where
  "numTZ off =
     (let zone = (if off < 0 then - ((- off) div 60) else off div 60)
      in (if zone < 0 then ''-'' else ''+'') @
         appendInt (\<bar>zone\<bar> div 60) 2 @ appendInt (\<bar>zone\<bar> mod 60) 2)"

definition Time_String :: "Time \<Rightarrow> string" where
  "Time_String t =
     Format_date_time '' '' t @ frac9 (nsec t) @ '' '' @ numTZ (offset t) @ '' '' @
     (if zone t \<noteq> [] then zone t else numTZ (offset t))"

section \<open>The database and the process, as the programs see them\<close>

datatype error = ErrNoRows | Err string

fun Error :: "error \<Rightarrow> string" where
  "Error ErrNoRows = ''sql: no rows in result set''"
| "Error (Err msg) = msg"

text \<open>
  A scanned value (\<^verbatim>\<open>interface{}\<close>) by its dynamic type, as the type switch of the
  row loop tells them apart: \<^verbatim>\<open>nil\<close>, \<^verbatim>\<open>bool\<close>, \<^verbatim>\<open>[]byte\<close>, \<^verbatim>\<open>time.Time\<close>, and every
  other type (\<^verbatim>\<open>int64\<close>, \<^verbatim>\<open>float64\<close>, \<^verbatim>\<open>string\<close>), which is carried as the text the
  verb \<^verbatim>\<open>%v\<close> prints for the value (for a \<^verbatim>\<open>string\<close>, the string itself).
\<close>

datatype cell = CNil | CBool bool | CBytes string | CTime Time | COther string

text \<open>
  What \<^verbatim>\<open>db.Query\<close> returns on success: the result of \<^verbatim>\<open>rows.Columns()\<close>; for each
  call of \<^verbatim>\<open>rows.Next()\<close> that returns true, what \<^verbatim>\<open>rows.Scan\<close> then delivers (an
  error, or the cells of the row); and \<^verbatim>\<open>rows.Err()\<close>, the error that ended the
  iteration, if any, which neither program reads.
\<close>

record Rows =
  Columns :: "error + string list"
  fetched :: "(error + cell list) list"
  rows_Err :: "error option"

text \<open>
  \<^verbatim>\<open>rows.Scan(dest...)\<close> with \<open>n\<close> destinations of type \<^verbatim>\<open>*interface{}\<close>: the
  number of destinations is compared with the number of values of the row.
\<close>

definition Scan :: "nat \<Rightarrow> error + cell list \<Rightarrow> error + cell list" where
  "Scan n r =
     (case r of
        Inl e \<Rightarrow> Inl e
      | Inr cells \<Rightarrow>
          if length cells \<noteq> n
          then Inl (Err (''sql: expected '' @ decimal (length cells) @
                 '' destination arguments in Scan, not '' @ decimal n))
          else Inr cells)"

text \<open>
  The environment of a run: the process environment, the error of \<^verbatim>\<open>sql.Open\<close> (if
  any), the answer of the database to \<^verbatim>\<open>db.QueryRow(query, arg).Scan(&s)\<close> and to
  \<^verbatim>\<open>db.Query(query, arg)\<close>, the error of creating or writing a file (if any), and the
  order in which \<^verbatim>\<open>range\<close> enumerates the keys of the map \<^verbatim>\<open>queries\<close> in this run
  (Go leaves it unspecified).
\<close>

record world =
  Getenv :: "string \<Rightarrow> string"
  sql_Open :: "error option"
  QueryRow :: "string \<Rightarrow> string \<Rightarrow> error + string"
  Query :: "string \<Rightarrow> string \<Rightarrow> error + Rows"
  file_error :: "string \<Rightarrow> error option"
  range_keys :: "string list"

text \<open>
  What a run does that can be observed: the database handles opened and the queries
  issued, in order; the text printed on standard output; the lines logged without
  ending the process; the files written.  \<^verbatim>\<open>log.Fatal\<close> ends the process with a
  message: \<open>Fatal\<close>.
\<close>

datatype event = Open | EvQueryRow string string | EvQuery string string

record state =
  events :: "event list"
  stdout :: string
  logged :: "string list"
  files :: "(string \<times> string) list"

datatype 'a result = Fatal string | Ok 'a

definition start :: state where
  "start = \<lparr>events = [], stdout = [], logged = [], files = []\<rparr>"

definition write_file :: "string \<Rightarrow> string \<Rightarrow> (string \<times> string) list \<Rightarrow> (string \<times> string) list" where
  "write_file name text fs = (name, text) # filter (\<lambda>p. fst p \<noteq> name) fs"

definition append_file :: "string \<Rightarrow> string \<Rightarrow> (string \<times> string) list \<Rightarrow> (string \<times> string) list" where
  "append_file name text fs = map (\<lambda>(n, c). if n = name then (n, c @ text) else (n, c)) fs"

section \<open>main.go\<close>

subsection \<open>escapeSingleQuotes and the type switch of the row loop\<close>

definition escapeSingleQuotes :: "string \<Rightarrow> string" where
  "escapeSingleQuotes s = ReplaceAll s [CHR 0x27] [CHR 0x27, CHR 0x27]"

text \<open>
  The \<^verbatim>\<open>switch val := raw.(type)\<close> of \<^verbatim>\<open>generateInsertStatements\<close>, which computes
  \<^verbatim>\<open>values[i]\<close> from \<^verbatim>\<open>rawResult[i]\<close>.
\<close>

fun formatValue :: "cell \<Rightarrow> string" where
  "formatValue CNil = ''NULL''"
| "formatValue (CBool val) = (if val then ''true'' else ''false'')"
| "formatValue (CBytes val) = [CHR 0x27] @ escapeSingleQuotes val @ [CHR 0x27]"
| "formatValue (CTime val) = [CHR 0x27] @ Format_Z (UTC val) @ [CHR 0x27]"
| "formatValue (COther val) = [CHR 0x27] @ val @ [CHR 0x27]"

text \<open>
  \<^verbatim>\<open>fmt.Sprintf("INSERT INTO \"%s\" (%s) VALUES (%s);\n", table, cols, values)\<close>
\<close>

definition Sprintf_insert :: "string \<Rightarrow> string \<Rightarrow> string \<Rightarrow> string" where
  "Sprintf_insert table cols vals =
     ''INSERT INTO \"'' @ table @ ''\" ('' @ cols @ '') VALUES ('' @ vals @ '');\<newline>''"

subsection \<open>generateInsertStatements\<close>

text \<open>
  The loop \<^verbatim>\<open>for rows.Next()\<close>, with the \<^verbatim>\<open>strings.Builder\<close> as the accumulator.
\<close>

fun insert_rows :: "string \<Rightarrow> string list \<Rightarrow> (error + cell list) list \<Rightarrow> string \<Rightarrow> error + string" where
  "insert_rows table cols [] out = Inr out"
| "insert_rows table cols (r # rs) out =
     (case Scan (length cols) r of
        Inl err \<Rightarrow> Inl err
      | Inr rawResult \<Rightarrow>
          insert_rows table cols rs
            (out @ Sprintf_insert table (Join cols '', '') (Join (map formatValue rawResult) '', '')))"

definition generateInsertStatements :: "world \<Rightarrow> string \<Rightarrow> string \<Rightarrow> string \<Rightarrow> error + string" where
  "generateInsertStatements db query table param =
     (case Query db query param of
        Inl err \<Rightarrow> Inl err
      | Inr rows \<Rightarrow>
          (case Columns rows of
             Inl err \<Rightarrow> Inl err
           | Inr cols \<Rightarrow> insert_rows table cols (fetched rows) []))"

subsection \<open>connectDB, userExists, getUserIDFromAccountID\<close>

definition connectDB :: "world \<Rightarrow> state \<Rightarrow> unit result \<times> state" where
  "connectDB w s =
     (if Getenv w ''DATABASE_URL'' = [] \<and>
         (Getenv w ''DB_HOST'' = [] \<or> Getenv w ''DB_PORT'' = [] \<or>
          Getenv w ''DB_USER'' = [] \<or> Getenv w ''DB_NAME'' = [])
      then (Fatal (''Missing required DB environment variables. Either set DATABASE_URL '' @
                   ''or DB_HOST, DB_PORT, DB_USER, DB_NAME (and optionally DB_PASS and DB_SSLMODE)''), s)
      else (case sql_Open w of
              Some err \<Rightarrow> (Fatal (Error err), s)
            | None \<Rightarrow> (Ok (), s\<lparr>events := events s @ [Open]\<rparr>)))"

definition userExists :: "world \<Rightarrow> string \<Rightarrow> state \<Rightarrow> bool result \<times> state" where
  "userExists w userID s =
     (case connectDB w s of
        (Fatal msg, s1) \<Rightarrow> (Fatal msg, s1)
      | (Ok db, s1) \<Rightarrow>
          (let q = ''SELECT id FROM users WHERE id = $1'';
               s2 = s1\<lparr>events := events s1 @ [EvQueryRow q userID]\<rparr>
           in case QueryRow w q userID of
                Inl err \<Rightarrow> (Ok False, s2\<lparr>stdout := stdout s2 @ Error err @ ''\<newline>''\<rparr>)
              | Inr ident \<Rightarrow> (Ok True, s2)))"

definition getUserIDFromAccountID :: "world \<Rightarrow> string \<Rightarrow> state \<Rightarrow> (error + string) result \<times> state" where
  "getUserIDFromAccountID w accountID s =
     (case connectDB w s of
        (Fatal msg, s1) \<Rightarrow> (Fatal msg, s1)
      | (Ok db, s1) \<Rightarrow>
          (let q = ''SELECT user_id FROM accounts WHERE id = $1'';
               s2 = s1\<lparr>events := events s1 @ [EvQueryRow q accountID]\<rparr>
           in case QueryRow w q accountID of
                Inl err \<Rightarrow> (Ok (Inl err), s2)
              | Inr userID \<Rightarrow> (Ok (Inr userID), s2)))"

subsection \<open>main\<close>

text \<open>The command line after \<^verbatim>\<open>flag.Parse()\<close>: the three flags and \<^verbatim>\<open>flag.Args()\<close>.\<close>

record flags =
  outputToFile :: bool
  userIDFlag :: string
  accountIDFlag :: string
  Args :: "string list"

definition queries :: "(string \<times> string) list" where
  "queries =
     [(''accounts'', ''SELECT * FROM accounts WHERE user_id = $1''),
      (''users'', ''SELECT * FROM users WHERE id = $1''),
      (''app_auth_tokens'', ''SELECT * FROM app_auth_tokens WHERE user_id = $1''),
      (''user_identities'', ''SELECT * FROM user_identities WHERE user_id = $1''),
      (''user_preferences'', ''SELECT * FROM user_preferences WHERE user_id = $1'')]"

text \<open>\<^verbatim>\<open>m[k]\<close> on a Go map of strings: the empty string for a missing key.\<close>

definition map_index :: "(string \<times> string) list \<Rightarrow> string \<Rightarrow> string" where
  "map_index m k = (case map_of m k of Some v \<Rightarrow> v | None \<Rightarrow> [])"

text \<open>
  The first part of \<^verbatim>\<open>main\<close>: the check of the command line and the
  \<^verbatim>\<open>switch\<close> that settles \<^verbatim>\<open>userID\<close>.
\<close>

definition main_resolve :: "world \<Rightarrow> flags \<Rightarrow> state \<Rightarrow> string result \<times> state" where
  "main_resolve w f s =
     (if (userIDFlag f \<noteq> [] \<and> accountIDFlag f \<noteq> []) \<or>
         (length (Args f) > 0 \<and> (userIDFlag f \<noteq> [] \<or> accountIDFlag f \<noteq> []))
      then (Fatal (''Provide either --user_id or --account_id, not both. Or pass a '' @
                   ''positional argument (assumed to be user_id by default).''), s)
      else if userIDFlag f \<noteq> [] then
        (let userID = userIDFlag f
         in case userExists w userID s of
              (Fatal msg, s1) \<Rightarrow> (Fatal msg, s1)
            | (Ok found, s1) \<Rightarrow>
                if \<not> found
                then (Fatal (''Could not find user_id '' @ userID @ '' in the database.''), s1)
                else (Ok userID, s1))
      else if accountIDFlag f \<noteq> [] then
        (case getUserIDFromAccountID w (accountIDFlag f) s of
           (Fatal msg, s1) \<Rightarrow> (Fatal msg, s1)
         | (Ok (Inl err), s1) \<Rightarrow>
             (Fatal (''Could not find user_id associated with account_id '' @
                     accountIDFlag f @ '': '' @ Error err), s1)
         | (Ok (Inr userID), s1) \<Rightarrow> (Ok userID, s1))
      else if length (Args f) = 1 then
        (let userID = Args f ! 0
         in case userExists w userID s of
              (Fatal msg, s1) \<Rightarrow> (Fatal msg, s1)
            | (Ok found, s1) \<Rightarrow>
                if \<not> found
                then (Fatal (''Could not find user_id '' @ userID @ '' in the database.''), s1)
                else (Ok userID, s1))
      else (Fatal (''Usage: go run main.go [--output=true] '' @
                   ''[--user_id=<id> | --account_id=<id>] <user_id>''), s))"

text \<open>
  The loop \<^verbatim>\<open>for _, table := range sortedKeys\<close>, with the builder \<^verbatim>\<open>output\<close> as
  the accumulator.  The query that \<^verbatim>\<open>generateInsertStatements\<close> issues is recorded
  here.
\<close>

fun dump_tables :: "world \<Rightarrow> string \<Rightarrow> string list \<Rightarrow> string \<times> state \<Rightarrow> string \<times> state" where
  "dump_tables db userID [] (output, s) = (output, s)"
| "dump_tables db userID (table # ts) (output, s) =
     (let query = map_index queries table;
          s1 = s\<lparr>events := events s @ [EvQuery query userID]\<rparr>
      in case generateInsertStatements db query table userID of
           Inl err \<Rightarrow>
             dump_tables db userID ts
               (output,
                s1\<lparr>logged := logged s1 @
                   [''Warning: Skipping table '' @ table @ '' due to error: '' @ Error err]\<rparr>)
         | Inr dump \<Rightarrow>
             dump_tables db userID ts
               (output @ ''-- Insert for '' @ table @ ''\<newline>'' @ dump @ ''\<newline>'', s1))"

text \<open>The rest of \<^verbatim>\<open>main\<close>, from \<^verbatim>\<open>db := connectDB()\<close> on.\<close>

definition main_dump :: "world \<Rightarrow> flags \<Rightarrow> string \<Rightarrow> state \<Rightarrow> unit result \<times> state" where
  "main_dump w f userID s =
     (case connectDB w s of
        (Fatal msg, s1) \<Rightarrow> (Fatal msg, s1)
      | (Ok db, s1) \<Rightarrow>
          (let sortedKeys = sort (range_keys w);
               (output, s2) = dump_tables w userID sortedKeys ([], s1);
               s3 = s2\<lparr>stdout := stdout s2 @ output\<rparr>
           in if outputToFile f then
                (let filename = ''user_'' @ userID @ ''_dump.sql''
                 in case file_error w filename of
                      Some err \<Rightarrow> (Fatal (''Failed to write to file: '' @ Error err), s3)
                    | None \<Rightarrow>
                        (Ok (),
                         s3\<lparr>files := write_file filename output (files s3),
                            stdout := stdout s3 @ ''Wrote SQL output to '' @ filename @ ''\<newline>''\<rparr>))
              else (Ok (), s3)))"

definition main :: "world \<Rightarrow> flags \<Rightarrow> unit result \<times> state" where
  "main w f =
     (case main_resolve w f start of
        (Fatal msg, s) \<Rightarrow> (Fatal msg, s)
      | (Ok userID, s) \<Rightarrow> main_dump w f userID s)"

section \<open>The account-keyed variant (src/unnamed/part_000)\<close>

definition v0_queries :: "(string \<times> string) list" where
  "v0_queries =
     [(''accounts'', ''SELECT * FROM accounts WHERE id = $1''),
      (''users'', ''SELECT * FROM users WHERE id = (SELECT user_id FROM accounts WHERE id = $1)''),
      (''app_auth_tokens'',
       ''SELECT * FROM app_auth_tokens WHERE user_id = (SELECT user_id FROM accounts WHERE id = $1)''),
      (''user_identities'',
       ''SELECT * FROM user_identities WHERE user_id = (SELECT user_id FROM accounts WHERE id = $1)''),
      (''user_preferences'',
       ''SELECT * FROM user_preferences WHERE user_id = (SELECT user_id FROM accounts WHERE id = $1)'')]"

definition setupDB :: "world \<Rightarrow> state \<Rightarrow> unit result \<times> state" where
  "setupDB w s =
     (if Getenv w ''DATABASE_URL'' \<noteq> [] then
        (case sql_Open w of
           Some err \<Rightarrow> (Fatal (''Failed to connect using DATABASE_URL: '' @ Error err), s)
         | None \<Rightarrow> (Ok (), s\<lparr>events := events s @ [Open]\<rparr>))
      else if Getenv w ''DB_HOST'' = [] \<or> Getenv w ''DB_PORT'' = [] \<or>
              Getenv w ''DB_USER'' = [] \<or> Getenv w ''DB_NAME'' = []
      then (Fatal (''Missing required DB environment variables. Either set DATABASE_URL '' @
                   ''or DB_HOST, DB_PORT, DB_USER, DB_NAME (and optionally DB_PASSWORD)''), s)
      else (case sql_Open w of
              Some err \<Rightarrow> (Fatal (''Failed to connect to DB: '' @ Error err), s)
            | None \<Rightarrow> (Ok (), s\<lparr>events := events s @ [Open]\<rparr>)))"

definition lookupUserID :: "world \<Rightarrow> string \<Rightarrow> state \<Rightarrow> string result \<times> state" where
  "lookupUserID w accountID s =
     (let q = ''SELECT user_id FROM accounts WHERE id = $1'';
          s1 = s\<lparr>events := events s @ [EvQueryRow q accountID]\<rparr>
      in case QueryRow w q accountID of
           Inl err \<Rightarrow> (Fatal (''Failed to look up user_id: '' @ Error err), s1)
         | Inr userID \<Rightarrow> (Ok userID, s1))"

text \<open>
  The type switch of \<^verbatim>\<open>runDump\<close>: it has no case for \<^verbatim>\<open>time.Time\<close>, which the
  default case prints with \<^verbatim>\<open>%v\<close>.
\<close>

fun v0_formatValue :: "cell \<Rightarrow> string" where
  "v0_formatValue CNil = ''NULL''"
| "v0_formatValue (CBool v) = (if v then ''true'' else ''false'')"
| "v0_formatValue (CBytes v) = [CHR 0x27] @ escapeSingleQuotes v @ [CHR 0x27]"
| "v0_formatValue (CTime v) = [CHR 0x27] @ Time_String v @ [CHR 0x27]"
| "v0_formatValue (COther v) = [CHR 0x27] @ v @ [CHR 0x27]"

text \<open>
  \<^verbatim>\<open>fmt.Sprintf("-- Insert for %s\nINSERT INTO \"%s\" (%s) VALUES (%s);\n\n", table, table, cols, values)\<close>
\<close>

definition v0_Sprintf_insert :: "string \<Rightarrow> string \<Rightarrow> string \<Rightarrow> string" where
  "v0_Sprintf_insert table cols vals =
     ''-- Insert for '' @ table @ ''\<newline>INSERT INTO \"'' @ table @ ''\" ('' @ cols @
     '') VALUES ('' @ vals @ '');\<newline>\<newline>''"

text \<open>
  The row loop of \<^verbatim>\<open>runDump\<close>: every statement is printed, and written to the file
  when there is one, as soon as its row is scanned.
\<close>

fun runDump_rows :: "string \<Rightarrow> string list \<Rightarrow> string option \<Rightarrow> (error + cell list) list \<Rightarrow> state \<Rightarrow> unit result \<times> state" where
  "runDump_rows table cols file [] s = (Ok (), s)"
| "runDump_rows table cols file (r # rs) s =
     (case Scan (length cols) r of
        Inl err \<Rightarrow> (Fatal (''Scan failed: '' @ Error err), s)
      | Inr raw \<Rightarrow>
          (let stmt = v0_Sprintf_insert table (Join cols '', '') (Join (map v0_formatValue raw) '', '');
               s1 = s\<lparr>stdout := stdout s @ stmt\<rparr>;
               s2 = (case file of
                       None \<Rightarrow> s1
                     | Some name \<Rightarrow> s1\<lparr>files := append_file name stmt (files s1)\<rparr>)
           in runDump_rows table cols file rs s2))"

definition runDump :: "world \<Rightarrow> string \<Rightarrow> string \<Rightarrow> string \<Rightarrow> string option \<Rightarrow> state \<Rightarrow> unit result \<times> state" where
  "runDump db query table param file s =
     (let s1 = s\<lparr>events := events s @ [EvQuery query param]\<rparr>
      in case Query db query param of
           Inl err \<Rightarrow> (Fatal (''Query for table '' @ table @ '' failed: '' @ Error err), s1)
         | Inr rows \<Rightarrow>
             (case Columns rows of
                Inl err \<Rightarrow> (Fatal (''Failed to get columns: '' @ Error err), s1)
              | Inr cols \<Rightarrow> runDump_rows table cols file (fetched rows) s1))"

text \<open>The loop \<^verbatim>\<open>for table, query := range queries\<close> of the variant's \<^verbatim>\<open>main\<close>.\<close>

fun v0_tables :: "world \<Rightarrow> string \<Rightarrow> string option \<Rightarrow> string list \<Rightarrow> state \<Rightarrow> unit result \<times> state" where
  "v0_tables db accountID file [] s = (Ok (), s)"
| "v0_tables db accountID file (table # ts) s =
     (case runDump db (map_index v0_queries table) table accountID file s of
        (Fatal msg, s1) \<Rightarrow> (Fatal msg, s1)
      | (Ok u, s1) \<Rightarrow> v0_tables db accountID file ts s1)"

text \<open>
  The variant's \<^verbatim>\<open>main\<close>; \<open>argv0\<close> is \<^verbatim>\<open>os.Args[0]\<close>, \<open>flagOutput\<close> the flag
  \<^verbatim>\<open>--output\<close> and \<open>args\<close> the arguments left after the flags.
\<close>

definition v0_main :: "world \<Rightarrow> string \<Rightarrow> bool \<Rightarrow> string list \<Rightarrow> unit result \<times> state" where
  "v0_main w argv0 flagOutput args =
     (if length args \<noteq> 1
      then (Fatal (''Usage: '' @ argv0 @ '' [--output=true] <account_id>''), start)
      else
        (let accountID = args ! 0
         in case setupDB w start of
              (Fatal msg, s1) \<Rightarrow> (Fatal msg, s1)
            | (Ok db, s1) \<Rightarrow>
                (case lookupUserID w accountID s1 of
                   (Fatal msg, s2) \<Rightarrow> (Fatal msg, s2)
                 | (Ok userID, s2) \<Rightarrow>
                     if flagOutput then
                       (let filename = ''user_'' @ userID @ ''_dump.sql''
                        in case file_error w filename of
                             Some err \<Rightarrow> (Fatal (''Failed to create output file: '' @ Error err), s2)
                           | None \<Rightarrow>
                               v0_tables w accountID (Some filename) (range_keys w)
                                 (s2\<lparr>files := write_file filename [] (files s2)\<rparr>))
                     else v0_tables w accountID None (range_keys w) s2)))"

section \<open>Notions of the specification\<close>

text \<open>
  Reading a string literal of standard SQL back: an opening quote, then bytes up to
  the first quote that is not followed by a second one; two quotes in a row stand for
  one quote of the value.  The result is the value and the text left after the
  closing quote; \<open>None\<close> when the text does not start with a literal or the literal is
  not closed.
\<close>

fun literal_body :: "string \<Rightarrow> string \<Rightarrow> (string \<times> string) option" where
  "literal_body acc [] = None"
| "literal_body acc [c] = (if c = CHR 0x27 then Some (acc, []) else None)"
| "literal_body acc (c # d # cs) =
     (if c = CHR 0x27
      then (if d = CHR 0x27 then literal_body (acc @ [CHR 0x27]) cs else Some (acc, d # cs))
      else literal_body (acc @ [c]) (d # cs))"

definition read_literal :: "string \<Rightarrow> (string \<times> string) option" where
  "read_literal s =
     (case s of
        [] \<Rightarrow> None
      | c # cs \<Rightarrow> if c = CHR 0x27 then literal_body [] cs else None)"

text \<open>
  The statement of one row in the words of the specification: the table name in double
  quotes, the column names and the literals each as a list separated by a comma and a
  space, and a newline after the semicolon.
\<close>

fun comma_list :: "string list \<Rightarrow> string" where
  "comma_list [] = []"
| "comma_list (x # xs) = x @ concat (map (\<lambda>y. '', '' @ y) xs)"

definition insert_statement :: "string \<Rightarrow> string list \<Rightarrow> string list \<Rightarrow> string" where
  "insert_statement table cols lits =
     ''INSERT INTO \"'' @ table @ ''\" ('' @ comma_list cols @ '') VALUES ('' @ comma_list lits @ '');\<newline>''"

definition no_newline :: "string \<Rightarrow> bool" where
  "no_newline s \<longleftrightarrow> CHR ''\<newline>'' \<notin> set s"

text \<open>A single line: text that ends in a newline and has no other newline.\<close>

definition single_line :: "string \<Rightarrow> bool" where
  "single_line s \<longleftrightarrow> s \<noteq> [] \<and> last s = CHR ''\<newline>'' \<and> no_newline (butlast s)"

text \<open>
  A database handle can be opened: the environment names the database and
  \<^verbatim>\<open>sql.Open\<close> returns no error.
\<close>

definition configured :: "world \<Rightarrow> bool" where
  "configured w \<longleftrightarrow>
     sql_Open w = None \<and>
     (Getenv w ''DATABASE_URL'' \<noteq> [] \<or>
      (Getenv w ''DB_HOST'' \<noteq> [] \<and> Getenv w ''DB_PORT'' \<noteq> [] \<and>
       Getenv w ''DB_USER'' \<noteq> [] \<and> Getenv w ''DB_NAME'' \<noteq> []))"

text \<open>
  The block of a table in the output of \<^verbatim>\<open>main\<close>: nothing when the dump of the table
  returns an error; the header line, the dump and an empty line otherwise.  With it,
  the warning that is logged for a table whose dump returns an error.
\<close>

definition table_block :: "world \<Rightarrow> string \<Rightarrow> string \<Rightarrow> string" where
  "table_block db userID table =
     (case generateInsertStatements db (map_index queries table) table userID of
        Inl err \<Rightarrow> []
      | Inr dump \<Rightarrow> ''-- Insert for '' @ table @ ''\<newline>'' @ dump @ ''\<newline>'')"

definition table_warning :: "world \<Rightarrow> string \<Rightarrow> string \<Rightarrow> string list" where
  "table_warning db userID table =
     (case generateInsertStatements db (map_index queries table) table userID of
        Inl err \<Rightarrow> [''Warning: Skipping table '' @ table @ '' due to error: '' @ Error err]
      | Inr dump \<Rightarrow> [])"

text \<open>
  The instant of a date and time of day in UTC, in the proleptic Gregorian calendar:
  the days from January 1 of the year 1 to January 1 of the year \<open>y\<close>, the days of the
  months before the month \<open>m\<close>, and from these the seconds from 1970-01-01T00:00:00Z to
  the second \<open>hh:mm:ss\<close> of the day \<open>d\<close>.  With it, the fields that make a date and a
  time of day, and a number written with two and with four decimal digits.
\<close>

definition leap_year :: "int \<Rightarrow> bool" where
  "leap_year y \<longleftrightarrow> (y mod 4 = 0 \<and> y mod 100 \<noteq> 0) \<or> y mod 400 = 0"

definition days_before_year :: "int \<Rightarrow> int" where
  "days_before_year y = 365 * (y - 1) + (y - 1) div 4 - (y - 1) div 100 + (y - 1) div 400"

definition month_length :: "int \<Rightarrow> int \<Rightarrow> int" where
  "month_length y m =
     (if m = 2 then (if leap_year y then 29 else 28)
      else if m = 4 \<or> m = 6 \<or> m = 9 \<or> m = 11 then 30 else 31)"

definition days_before_month :: "int \<Rightarrow> int \<Rightarrow> int" where
  "days_before_month y m = sum_list (map (month_length y) [1..m - 1])"

definition civil_seconds :: "int \<Rightarrow> int \<Rightarrow> int \<Rightarrow> int \<Rightarrow> int \<Rightarrow> int \<Rightarrow> int" where
  "civil_seconds y m d hh mm ss =
     (days_before_year y - days_before_year 1970 + days_before_month y m + (d - 1)) * 86400 +
     hh * 3600 + mm * 60 + ss"

definition civil_time :: "int \<Rightarrow> int \<Rightarrow> int \<Rightarrow> int \<Rightarrow> int \<Rightarrow> int \<Rightarrow> bool" where
  "civil_time y m d hh mm ss \<longleftrightarrow>
     1 \<le> m \<and> m \<le> 12 \<and> 1 \<le> d \<and> d \<le> month_length y m \<and>
     0 \<le> hh \<and> hh < 24 \<and> 0 \<le> mm \<and> mm < 60 \<and> 0 \<le> ss \<and> ss < 60"

definition two_digits :: "int \<Rightarrow> string" where
  "two_digits n = [digit (nat (n div 10)), digit (nat (n mod 10))]"

definition four_digits :: "int \<Rightarrow> string" where
  "four_digits n = [digit (nat (n div 1000)), digit (nat (n div 100 mod 10)),
     digit (nat (n div 10 mod 10)), digit (nat (n mod 10))]"

section \<open>Example runs\<close>

text \<open>A database that is reachable and answers every query with no row at all.\<close>

definition empty_db :: world where
  "empty_db =
     \<lparr>Getenv = (\<lambda>name. if name = ''DATABASE_URL'' then ''postgres://localhost/dev'' else []),
      sql_Open = None,
      QueryRow = (\<lambda>query arg. Inl ErrNoRows),
      Query = (\<lambda>query arg. Inr \<lparr>Columns = Inr [''id''], fetched = [], rows_Err = None\<rparr>),
      file_error = (\<lambda>name. None),
      range_keys = [''users'', ''accounts'', ''user_preferences'', ''app_auth_tokens'', ''user_identities'']\<rparr>"

text \<open>The same database with one answer for every \<^verbatim>\<open>db.Query\<close>.\<close>

definition db_with :: "Rows \<Rightarrow> world" where
  "db_with rows = empty_db\<lparr>Query := (\<lambda>query arg. Inr rows)\<rparr>"

text \<open>Two rows of three columns, and one row whose text value has two lines.\<close>

definition two_users :: Rows where
  "two_users =
     \<lparr>Columns = Inr [''id'', ''name'', ''admin''],
      fetched = [Inr [COther ''1'', CBytes ''Ann'', CBool True],
                 Inr [COther ''2'', CNil, CBool False]],
      rows_Err = None\<rparr>"

definition two_line_bio :: Rows where
  "two_line_bio =
     \<lparr>Columns = Inr [''bio''], fetched = [Inr [CBytes ''a\<newline>b'']], rows_Err = None\<rparr>"

text \<open>
  A database that refuses the connection, and one with the user \<^verbatim>\<open>U1\<close> and the
  account \<^verbatim>\<open>A1\<close> of that user.
\<close>

definition refusing_db :: world where
  "refusing_db = empty_db\<lparr>QueryRow := (\<lambda>query arg. Inl (Err ''dial tcp 127.0.0.1:5432: connect: connection refused''))\<rparr>"

definition one_user_db :: world where
  "one_user_db = empty_db\<lparr>QueryRow := (\<lambda>query arg.
     if query = ''SELECT id FROM users WHERE id = $1'' \<and> arg = ''U1'' then Inr ''U1''
     else if query = ''SELECT user_id FROM accounts WHERE id = $1'' \<and> arg = ''A1'' then Inr ''U1''
     else Inl ErrNoRows)\<rparr>"

text \<open>
  A database with one row in \<^verbatim>\<open>accounts\<close> and in \<^verbatim>\<open>users\<close> and none in the other
  tables; and the same database with a second row in \<^verbatim>\<open>users\<close> whose scan fails.
\<close>

definition small_db :: world where
  "small_db = one_user_db\<lparr>Query := (\<lambda>query arg.
     if query = ''SELECT * FROM accounts WHERE user_id = $1'' \<or>
        query = ''SELECT * FROM accounts WHERE id = $1''
     then Inr \<lparr>Columns = Inr [''id''], fetched = [Inr [COther ''A1'']], rows_Err = None\<rparr>
     else if query = ''SELECT * FROM users WHERE id = $1'' \<or>
        query = ''SELECT * FROM users WHERE id = (SELECT user_id FROM accounts WHERE id = $1)''
     then Inr \<lparr>Columns = Inr [''id''], fetched = [Inr [COther ''U1'']], rows_Err = None\<rparr>
     else Inr \<lparr>Columns = Inr [''id''], fetched = [], rows_Err = None\<rparr>)\<rparr>"

definition broken_db :: world where
  "broken_db = one_user_db\<lparr>Query := (\<lambda>query arg.
     if query = ''SELECT * FROM accounts WHERE user_id = $1'' \<or>
        query = ''SELECT * FROM accounts WHERE id = $1''
     then Inr \<lparr>Columns = Inr [''id''], fetched = [Inr [COther ''A1'']], rows_Err = None\<rparr>
     else if query = ''SELECT * FROM users WHERE id = $1'' \<or>
        query = ''SELECT * FROM users WHERE id = (SELECT user_id FROM accounts WHERE id = $1)''
     then Inr \<lparr>Columns = Inr [''id'', ''name''],
            fetched = [Inr [COther ''U1'', CBytes ''Ann''], Inl (Err ''unexpected EOF'')],
            rows_Err = None\<rparr>
     else Inr \<lparr>Columns = Inr [''id''], fetched = [], rows_Err = None\<rparr>)\<rparr>"

section \<open>Escaping of binary and text values\<close>

lemma ReplaceAll_quote:
  "ReplaceAll s [q] [q, q] = concat (map (\<lambda>c. if c = q then [q, q] else [c]) s)"
  by (induction s) simp_all

lemma literal_body_escaped:
  "literal_body acc (concat (map (\<lambda>c. if c = CHR 0x27 then [CHR 0x27, CHR 0x27] else [c]) s) @ [CHR 0x27])
   = Some (acc @ s, [])"
proof (induction s arbitrary: acc)
  case Nil
  show ?case by simp
next
  case (Cons x xs)
  let ?e = "concat (map (\<lambda>c. if c = CHR 0x27 then [CHR 0x27, CHR 0x27] else [c]) xs) @ [CHR 0x27]"
  show ?case
  proof (cases "x = CHR 0x27")
    case True
    then show ?thesis using Cons.IH [of "acc @ [CHR 0x27]"] by simp
  next
    case False
    obtain d ds where e: "?e = d # ds" by (cases ?e) simp_all
    have "literal_body acc (x # ?e) = literal_body (acc @ [x]) ?e"
      using False by (simp add: e)
    then show ?thesis using False Cons.IH [of "acc @ [x]"] by simp
  qed
qed

text \<open>
  The case \<^verbatim>\<open>[]byte\<close> of the type switch: the formatted value is the value
  between two single quotes, with every single quote of the value replaced by two and
  every other byte left as it is: the bytes other than quotes are the same, in the same
  order, the number of quotes has doubled, and reading the result back as one SQL
  string literal gives the value and leaves nothing over.
\<close>

theorem formatValue_bytes:
  "formatValue (CBytes s) =
     [CHR 0x27] @ concat (map (\<lambda>c. if c = CHR 0x27 then [CHR 0x27, CHR 0x27] else [c]) s) @ [CHR 0x27]
   \<and> filter (\<lambda>c. c \<noteq> CHR 0x27) (escapeSingleQuotes s) = filter (\<lambda>c. c \<noteq> CHR 0x27) s
   \<and> length (filter (\<lambda>c. c = CHR 0x27) (escapeSingleQuotes s)) = 2 * length (filter (\<lambda>c. c = CHR 0x27) s)
   \<and> read_literal (formatValue (CBytes s)) = Some (s, [])"
proof -
  have e: "escapeSingleQuotes s =
      concat (map (\<lambda>c. if c = CHR 0x27 then [CHR 0x27, CHR 0x27] else [c]) s)"
    by (simp add: escapeSingleQuotes_def ReplaceAll_quote)
  have f: "filter (\<lambda>c. c \<noteq> CHR 0x27) (escapeSingleQuotes s) = filter (\<lambda>c. c \<noteq> CHR 0x27) s"
    unfolding e by (induction s) simp_all
  have n: "length (filter (\<lambda>c. c = CHR 0x27) (escapeSingleQuotes s))
      = 2 * length (filter (\<lambda>c. c = CHR 0x27) s)"
    unfolding e by (induction s) simp_all
  have r: "read_literal (formatValue (CBytes s)) = Some (s, [])"
    using literal_body_escaped [of "[]" s] by (simp add: read_literal_def e)
  show ?thesis using e f n r by simp
qed

text \<open>
  C2 (the code at the failing input).  A text value that is scanned as a Go
  \<^verbatim>\<open>string\<close> has no case of its own in the type switch: the default case prints it
  between two single quotes with its own quotes left single, although
  \<^verbatim>\<open>escapeSingleQuotes\<close> is there to escape the quotes of string values.  The value
  \<^verbatim>\<open>O'Brien\<close> is printed as \<^verbatim>\<open>'O'Brien'\<close>, which read back as a string literal ends
  after \<^verbatim>\<open>O\<close>; the same bytes as a \<^verbatim>\<open>[]byte\<close> are printed with the quote doubled.
\<close>

theorem formatValue_string_unescaped:
  "formatValue (COther ''O'Brien'') = [CHR 0x27] @ ''O'Brien'' @ [CHR 0x27]
   \<and> read_literal (formatValue (COther ''O'Brien'')) = Some (''O'', ''Brien'' @ [CHR 0x27])
   \<and> formatValue (CBytes ''O'Brien'') = [CHR 0x27] @ ''O'' @ [CHR 0x27, CHR 0x27] @ ''Brien'' @ [CHR 0x27]
   \<and> read_literal (formatValue (CBytes ''O'Brien'')) = Some (''O'Brien'', [])"
  by (simp add: read_literal_def escapeSingleQuotes_def)

section \<open>Timestamps\<close>

lemma unixToAbsolute: "unixToInternal + internalToAbsolute = 9223372028715321600"
  by (simp add: unixToInternal_def internalToAbsolute_def absoluteZeroYear_def)

lemma abs_sec_UTC:
  assumes "- 62167219200 \<le> unixSec t" and "unixSec t < 253402300800"
  shows "abs_sec (UTC t) = unixSec t + 9223372028715321600"
proof -
  have "0 \<le> unixSec t + 9223372028715321600" using assms by simp
  moreover have "unixSec t + 9223372028715321600 < 2 ^ 64" using assms by simp
  ultimately show ?thesis
    by (simp add: abs_sec_def UTC_def unixToAbsolute)
qed

subsection \<open>The year and the day of the year\<close>

lemma div_bounds:
  fixes x c :: int
  assumes "0 < c"
  shows "c * (x div c) \<le> x \<and> x < c * (x div c) + c"
  using pos_mod_sign [OF assms, of x] pos_mod_bound [OF assms, of x] mult_div_mod_eq [of c x]
  by linarith

lemma div_eqI:
  fixes x c q :: int
  assumes "c * q \<le> x" and "x < c * q + c"
  shows "x div c = q"
  by (rule int_div_pos_eq [of x c q "x - c * q"]) (use assms in simp_all)

lemma mod_zero_iff:
  fixes v c :: int
  assumes "0 < v" and "v \<le> c"
  shows "v mod c = 0 \<longleftrightarrow> v = c"
proof (cases "v = c")
  case True
  then show ?thesis by simp
next
  case False
  then have "v mod c = v" using assms by (simp add: mod_pos_pos_trivial)
  then show ?thesis using assms False by simp
qed

lemma absDate_year_eq:
  assumes "0 \<le> a"
  shows "\<exists>y yd. absDate_year a = (y, yd) \<and>
     days_before_year y + yd = a div 86400 - 146097 * 730692556 \<and>
     0 \<le> yd \<and> yd < (if leap_year y then 366 else 365)"
proof -
  define d0 where "d0 = a div 86400"
  define n400 where "n400 = d0 div 146097"
  define d1 where "d1 = d0 - 146097 * n400"
  define m100 where "m100 = d1 div 36524"
  define n100 where "n100 = m100 - m100 div 4"
  define d2 where "d2 = d1 - 36524 * n100"
  define n4 where "n4 = d2 div 1461"
  define d3 where "d3 = d2 - 1461 * n4"
  define m1 where "m1 = d3 div 365"
  define n1 where "n1 = m1 - m1 div 4"
  define d4 where "d4 = d3 - 365 * n1"
  define y where "y = 400 * n400 + 100 * n100 + 4 * n4 + n1 + absoluteZeroYear"
  have eq: "absDate_year a = (y, d4)"
    unfolding absDate_year_def
    apply (subst Let_def, fold d0_def)
    apply (subst Let_def, fold n400_def)
    apply (subst Let_def)
    apply (subst Let_def, fold d1_def)
    apply (subst Let_def, fold m100_def)
    apply (subst Let_def, fold n100_def)
    apply (subst Let_def)
    apply (subst Let_def, fold d2_def)
    apply (subst Let_def, fold n4_def)
    apply (subst Let_def)
    apply (subst Let_def, fold d3_def)
    apply (subst Let_def, fold m1_def)
    apply (subst Let_def, fold n1_def)
    apply (subst Let_def)
    apply (subst Let_def, fold d4_def)
    apply (simp add: y_def)
    done
  have d0: "0 \<le> d0" using assms by (simp add: d0_def)
  have n400: "146097 * n400 \<le> d0" "d0 < 146097 * n400 + 146097"
    using div_bounds [of 146097 d0] by (simp_all add: n400_def)
  have d1: "0 \<le> d1" "d1 < 146097" using n400 by (simp_all add: d1_def)
  have m100: "36524 * m100 \<le> d1" "d1 < 36524 * m100 + 36524"
    using div_bounds [of 36524 d1] by (simp_all add: m100_def)
  have m100r: "0 \<le> m100" "m100 \<le> 4" using m100 d1 by linarith+
  have n100: "n100 = (if m100 = 4 then 3 else m100)"
  proof -
    have "m100 = 0 \<or> m100 = 1 \<or> m100 = 2 \<or> m100 = 3 \<or> m100 = 4" using m100r by linarith
    then show ?thesis by (auto simp: n100_def)
  qed
  have n100r: "0 \<le> n100" "n100 \<le> 3" using n100 m100r by (simp_all split: if_splits)
  have d2: "0 \<le> d2" "d2 \<le> 36524" "n100 < 3 \<longrightarrow> d2 < 36524"
    using m100 m100r d1 n100 by (auto simp: d2_def split: if_splits)
  have n4: "1461 * n4 \<le> d2" "d2 < 1461 * n4 + 1461"
    using div_bounds [of 1461 d2] by (simp_all add: n4_def)
  have n4r: "0 \<le> n4" "n4 \<le> 24" using n4 d2 by linarith+
  have d3: "0 \<le> d3" "d3 < 1461" "n100 < 3 \<and> n4 = 24 \<longrightarrow> d3 < 1460"
    using n4 d2 by (auto simp: d3_def)
  have m1: "365 * m1 \<le> d3" "d3 < 365 * m1 + 365"
    using div_bounds [of 365 d3] by (simp_all add: m1_def)
  have m1r: "0 \<le> m1" "m1 \<le> 4" using m1 d3 by linarith+
  have n1: "n1 = (if m1 = 4 then 3 else m1)"
  proof -
    have "m1 = 0 \<or> m1 = 1 \<or> m1 = 2 \<or> m1 = 3 \<or> m1 = 4" using m1r by linarith
    then show ?thesis by (auto simp: n1_def)
  qed
  have n1r: "0 \<le> n1" "n1 \<le> 3" using n1 m1r by (simp_all split: if_splits)
  have d4: "0 \<le> d4" "d4 \<le> 365" "d4 = 365 \<longrightarrow> n1 = 3 \<and> d3 = 1460"
    using m1 m1r d3 n1 by (auto simp: d4_def split: if_splits)
  define A where "A = n400 - 730692556"
  have Y: "y - 1 = 400 * A + 100 * n100 + 4 * n4 + n1"
    by (simp add: y_def A_def absoluteZeroYear_def)
  have q400: "(y - 1) div 400 = A"
    by (rule div_eqI) (use Y n100r n4r n1r in \<open>simp_all add: algebra_simps\<close>)
  have q100: "(y - 1) div 100 = 4 * A + n100"
    by (rule div_eqI) (use Y n100r n4r n1r in \<open>simp_all add: algebra_simps\<close>)
  have q4: "(y - 1) div 4 = 100 * A + 25 * n100 + n4"
    by (rule div_eqI) (use Y n100r n4r n1r in \<open>simp_all add: algebra_simps\<close>)
  have days: "days_before_year y + d4 = d0 - 146097 * 730692556"
    unfolding days_before_year_def q400 q100 q4
    using Y by (simp add: d4_def d3_def d2_def d1_def A_def)
  have y4: "y mod 4 = (n1 + 1) mod 4"
  proof -
    have "y = (n1 + 1) + 4 * (100 * A + 25 * n100 + n4)" using Y by simp
    then show ?thesis by (simp only: mod_mult_self2)
  qed
  have y100: "y mod 100 = (4 * n4 + n1 + 1) mod 100"
  proof -
    have "y = (4 * n4 + n1 + 1) + 100 * (4 * A + n100)" using Y by simp
    then show ?thesis by (simp only: mod_mult_self2)
  qed
  have y400: "y mod 400 = (100 * n100 + 4 * n4 + n1 + 1) mod 400"
  proof -
    have "y = (100 * n100 + 4 * n4 + n1 + 1) + 400 * A" using Y by simp
    then show ?thesis by (simp only: mod_mult_self2)
  qed
  have l4: "y mod 4 = 0 \<longleftrightarrow> n1 = 3"
    unfolding y4 using mod_zero_iff [of "n1 + 1" 4] n1r by simp
  have l100: "y mod 100 = 0 \<longleftrightarrow> n1 = 3 \<and> n4 = 24"
    unfolding y100 using mod_zero_iff [of "4 * n4 + n1 + 1" 100] n1r n4r by auto
  have l400: "y mod 400 = 0 \<longleftrightarrow> n1 = 3 \<and> n4 = 24 \<and> n100 = 3"
    unfolding y400 using mod_zero_iff [of "100 * n100 + 4 * n4 + n1 + 1" 400] n1r n4r n100r by auto
  have leap: "leap_year y \<longleftrightarrow> n1 = 3 \<and> (n4 \<noteq> 24 \<or> n100 = 3)"
    unfolding leap_year_def l4 l100 l400 by blast
  have bound: "d4 < (if leap_year y then 366 else 365)"
    using d4 d3 n100r unfolding leap by (auto; linarith)
  show ?thesis
    using eq days d4(1) bound by (simp add: d0_def)
qed


subsection \<open>The month and the day of the month\<close>

lemma isLeap_leap_year: "isLeap y = leap_year y"
proof -
  have "y mod 400 = 0 \<Longrightarrow> y mod 4 = 0" by presburger
  then show ?thesis by (auto simp: isLeap_def leap_year_def)
qed

lemma int_cases_12:
  fixes m :: int
  assumes "1 \<le> m" and "m \<le> 12"
  shows "m = 1 \<or> m = 2 \<or> m = 3 \<or> m = 4 \<or> m = 5 \<or> m = 6 \<or> m = 7 \<or> m = 8 \<or> m = 9 \<or>
    m = 10 \<or> m = 11 \<or> m = 12"
  using assms by presburger

lemma days_before_month_table:
  assumes "1 \<le> m" and "m \<le> 12"
  shows "days_before_month y m = daysBefore ! nat (m - 1) + (if leap_year y \<and> 2 < m then 1 else 0)"
  using int_cases_12 [OF assms]
  by (elim disjE) (simp_all add: days_before_month_def month_length_def daysBefore_def upto.simps)

lemma month_length_table:
  assumes "1 \<le> m" and "m \<le> 12"
  shows "month_length y m =
     daysBefore ! nat m - daysBefore ! nat (m - 1) + (if leap_year y \<and> m = 2 then 1 else 0)"
  using int_cases_12 [OF assms]
  by (elim disjE) (simp_all add: month_length_def daysBefore_def)

lemma month_day_eq:
  assumes "0 \<le> yd" and "yd < 365"
  shows "\<exists>m d. month_day yd = (m, d) \<and> 1 \<le> m \<and> m \<le> 12 \<and> 1 \<le> d \<and>
     d \<le> daysBefore ! nat m - daysBefore ! nat (m - 1) \<and>
     daysBefore ! nat (m - 1) + d - 1 = yd"
proof -
  define k where "k = yd div 31"
  have k: "31 * k \<le> yd" "yd < 31 * k + 31"
    using div_bounds [of 31 yd] by (simp_all add: k_def)
  then have "0 \<le> k" "k \<le> 11" using assms by linarith+
  then have "k = 0 \<or> k = 1 \<or> k = 2 \<or> k = 3 \<or> k = 4 \<or> k = 5 \<or> k = 6 \<or> k = 7 \<or> k = 8 \<or>
    k = 9 \<or> k = 10 \<or> k = 11"
    by presburger
  then show ?thesis
    using k assms unfolding month_day_def k_def [symmetric] Let_def
    by (elim disjE) (simp_all add: daysBefore_def)
qed


lemma daysBefore_ge_60:
  assumes "1 \<le> m" and "m \<le> 12" and "60 \<le> daysBefore ! nat m"
  shows "2 < m"
  using int_cases_12 [OF assms(1,2)] assms(3) by (auto simp: daysBefore_def)

lemma daysBefore_less_59:
  assumes "1 \<le> m" and "m \<le> 12" and "daysBefore ! nat (m - 1) < 59"
  shows "m \<le> 2"
  using int_cases_12 [OF assms(1,2)] assms(3) by (auto simp: daysBefore_def)

lemma absDate_eq:
  assumes "0 \<le> a"
  shows "\<exists>y m d. absDate a = (y, m, d) \<and> 1 \<le> m \<and> m \<le> 12 \<and> 1 \<le> d \<and> d \<le> month_length y m \<and>
     days_before_year y + days_before_month y m + (d - 1) = a div 86400 - 146097 * 730692556 \<and>
     0 \<le> days_before_month y m + (d - 1) \<and>
     days_before_month y m + (d - 1) < (if leap_year y then 366 else 365)"
proof -
  from absDate_year_eq [OF assms] obtain y yd where
    ay: "absDate_year a = (y, yd)" and
    days: "days_before_year y + yd = a div 86400 - 146097 * 730692556" and
    yd: "0 \<le> yd" "yd < (if leap_year y then 366 else 365)"
    by blast
  consider (after) "leap_year y" "59 < yd" | (leap_day) "leap_year y" "yd = 59"
    | (plain) "\<not> leap_year y \<or> yd < 59"
    by linarith
  then show ?thesis
  proof cases
    case after
    then have "0 \<le> yd - 1" "yd - 1 < 365" using yd by simp_all
    from month_day_eq [OF this] obtain m d where
      md: "month_day (yd - 1) = (m, d)" and m: "1 \<le> m" "m \<le> 12" and d: "1 \<le> d"
        "d \<le> daysBefore ! nat m - daysBefore ! nat (m - 1)" and
      s: "daysBefore ! nat (m - 1) + d - 1 = yd - 1"
      by blast
    have "60 \<le> daysBefore ! nat m" using d s after by linarith
    then have m3: "2 < m" by (rule daysBefore_ge_60 [OF m])
    have "absDate a = (y, m, d)"
      using after by (simp add: absDate_def ay md isLeap_leap_year)
    moreover have "d \<le> month_length y m"
      using d m3 by (simp add: month_length_table [OF m])
    moreover have "days_before_year y + days_before_month y m + (d - 1) = a div 86400 - 146097 * 730692556"
      using days s m3 after by (simp add: days_before_month_table [OF m])
    moreover have "0 \<le> days_before_month y m + (d - 1)"
      "days_before_month y m + (d - 1) < (if leap_year y then 366 else 365)"
      using days s m3 after yd by (simp_all add: days_before_month_table [OF m])
    ultimately show ?thesis using m d by blast
  next
    case leap_day
    have "absDate a = (y, 2, 29)"
      using leap_day by (simp add: absDate_def ay isLeap_leap_year)
    moreover have "month_length y 2 = 29" using leap_day by (simp add: month_length_def)
    moreover have "days_before_month y 2 = 31"
      by (simp add: days_before_month_def month_length_def upto.simps)
    ultimately show ?thesis using days leap_day by simp
  next
    case plain
    then have "yd < 365" using yd by (auto split: if_splits)
    from month_day_eq [OF yd(1) this] obtain m d where
      md: "month_day yd = (m, d)" and m: "1 \<le> m" "m \<le> 12" and d: "1 \<le> d"
        "d \<le> daysBefore ! nat m - daysBefore ! nat (m - 1)" and
      s: "daysBefore ! nat (m - 1) + d - 1 = yd"
      by blast
    have m2: "leap_year y \<longrightarrow> m \<le> 2"
    proof
      assume "leap_year y"
      then have "yd < 59" using plain by simp
      then have "daysBefore ! nat (m - 1) < 59" using s d by linarith
      then show "m \<le> 2" by (rule daysBefore_less_59 [OF m])
    qed
    have "absDate a = (y, m, d)"
      using plain by (auto simp: absDate_def ay md isLeap_leap_year)
    moreover have "d \<le> month_length y m"
      using d by (auto simp: month_length_table [OF m])
    moreover have "days_before_year y + days_before_month y m + (d - 1) = a div 86400 - 146097 * 730692556"
      using days s m2 by (auto simp: days_before_month_table [OF m])
    moreover have "0 \<le> days_before_month y m + (d - 1)"
      "days_before_month y m + (d - 1) < (if leap_year y then 366 else 365)"
      using days s m2 yd by (auto simp: days_before_month_table [OF m])
    ultimately show ?thesis using m d by blast
  qed
qed

subsection \<open>The clock\<close>

lemma absClock_eq:
  "\<exists>hh mm ss. absClock a = (hh, mm, ss) \<and> 0 \<le> hh \<and> hh < 24 \<and> 0 \<le> mm \<and> mm < 60 \<and>
     0 \<le> ss \<and> ss < 60 \<and> hh * 3600 + mm * 60 + ss = a mod 86400"
proof -
  define r where "r = a mod 86400"
  define hh where "hh = r div 3600"
  define r' where "r' = r - hh * 3600"
  define mm where "mm = r' div 60"
  define ss where "ss = r' - mm * 60"
  have eq: "absClock a = (hh, mm, ss)"
    unfolding absClock_def
    apply (subst Let_def, fold r_def)
    apply (subst Let_def, fold hh_def)
    apply (subst Let_def, fold r'_def)
    apply (subst Let_def, fold mm_def)
    apply (subst Let_def, fold ss_def)
    apply simp
    done
  have r: "0 \<le> r" "r < 86400" by (simp_all add: r_def)
  have hh: "3600 * hh \<le> r" "r < 3600 * hh + 3600"
    using div_bounds [of 3600 r] by (simp_all add: hh_def)
  have r': "0 \<le> r'" "r' < 3600" using hh by (simp_all add: r'_def)
  have mm: "60 * mm \<le> r'" "r' < 60 * mm + 60"
    using div_bounds [of 60 r'] by (simp_all add: mm_def)
  have "0 \<le> hh" "hh < 24" "0 \<le> mm" "mm < 60" "0 \<le> ss" "ss < 60"
    using r hh r' mm by (simp_all add: ss_def)
  moreover have "hh * 3600 + mm * 60 + ss = r" by (simp add: ss_def r'_def)
  ultimately show ?thesis using eq unfolding r_def by blast
qed

subsection \<open>Digits\<close>

lemma decimal_1: "n < 10 \<Longrightarrow> decimal n = [digit n]"
  by (subst decimal.simps) simp

lemma decimal_2: "10 \<le> n \<Longrightarrow> n < 100 \<Longrightarrow> decimal n = [digit (n div 10), digit (n mod 10)]"
  by (subst decimal.simps) (simp add: decimal_1)

lemma decimal_3:
  "100 \<le> n \<Longrightarrow> n < 1000 \<Longrightarrow> decimal n = [digit (n div 100), digit (n div 10 mod 10), digit (n mod 10)]"
proof -
  assume n: "100 \<le> n" "n < 1000"
  have "n div 10 div 10 = n div 100" by (simp add: div_mult2_eq [symmetric])
  then show ?thesis using n by (subst decimal.simps) (simp add: decimal_2)
qed

lemma decimal_4:
  "1000 \<le> n \<Longrightarrow> n < 10000 \<Longrightarrow>
   decimal n = [digit (n div 1000), digit (n div 100 mod 10), digit (n div 10 mod 10), digit (n mod 10)]"
proof -
  assume n: "1000 \<le> n" "n < 10000"
  have "n div 10 div 100 = n div 1000" "n div 10 div 10 = n div 100"
    by (simp_all add: div_mult2_eq [symmetric])
  then show ?thesis using n by (subst decimal.simps) (simp add: decimal_3)
qed

lemma digit_0: "digit 0 = CHR ''0''"
  by (simp add: digit_def)

lemma replicate_small:
  "replicate (Suc 0) c = [c]" "replicate 2 c = [c, c]" "replicate 3 c = [c, c, c]"
  by (simp_all add: numeral_2_eq_2 numeral_3_eq_3)

lemma two_digits_nat:
  "0 \<le> x \<Longrightarrow> two_digits x = [digit (nat x div 10), digit (nat x mod 10)]"
  by (simp add: two_digits_def nat_div_distrib nat_mod_distrib)

lemma four_digits_nat:
  "0 \<le> x \<Longrightarrow> four_digits x =
     [digit (nat x div 1000), digit (nat x div 100 mod 10), digit (nat x div 10 mod 10), digit (nat x mod 10)]"
  by (simp add: four_digits_def nat_div_distrib nat_mod_distrib)

lemma appendInt_two:
  assumes "0 \<le> x" and "x < 100"
  shows "appendInt x 2 = two_digits x"
proof (cases "nat x < 10")
  case True
  then show ?thesis
    using assms by (simp add: appendInt_def two_digits_nat decimal_1 digit_0 replicate_small)
next
  case False
  then have "10 \<le> nat x" "nat x < 100" using assms by simp_all
  then show ?thesis
    using assms by (simp add: appendInt_def two_digits_nat decimal_2)
qed

lemma appendInt_four:
  assumes "0 \<le> x" and "x < 10000"
  shows "appendInt x 4 = four_digits x"
proof -
  consider "nat x < 10" | "10 \<le> nat x" "nat x < 100" | "100 \<le> nat x" "nat x < 1000"
    | "1000 \<le> nat x" "nat x < 10000"
    using assms by linarith
  then show ?thesis
  proof cases
    case 1
    then show ?thesis
      using assms by (simp add: appendInt_def four_digits_nat decimal_1 digit_0 replicate_small)
  next
    case 2
    then show ?thesis
      using assms by (simp add: appendInt_def four_digits_nat decimal_2 digit_0 replicate_small)
  next
    case 3
    then show ?thesis
      using assms by (simp add: appendInt_def four_digits_nat decimal_3 digit_0 replicate_small)
  next
    case 4
    then show ?thesis
      using assms by (simp add: appendInt_def four_digits_nat decimal_4)
  qed
qed

subsection \<open>The year of a day\<close>

lemma days_before_year_mono:
  assumes "y \<le> y'"
  shows "days_before_year y \<le> days_before_year y'"
proof -
  define Y where "Y = y - 1"
  define Y' where "Y' = y' - 1"
  have le: "Y \<le> Y'" using assms by (simp add: Y_def Y'_def)
  define q4 where "q4 = Y div 4"
  define q4' where "q4' = Y' div 4"
  define q100 where "q100 = Y div 100"
  define q100' where "q100' = Y' div 100"
  define q400 where "q400 = Y div 400"
  define q400' where "q400' = Y' div 400"
  have a: "q4 \<le> q4'" unfolding q4_def q4'_def using le by (rule zdiv_mono1) simp
  have b: "q400 \<le> q400'" unfolding q400_def q400'_def using le by (rule zdiv_mono1) simp
  have c: "100 * q100' \<le> Y'" "Y < 100 * q100 + 100"
    unfolding q100_def q100'_def
    using div_bounds [of 100 Y'] div_bounds [of 100 Y] by simp_all
  have "365 * Y + q4 - q100 + q400 \<le> 365 * Y' + q4' - q100' + q400'"
    using a b c le by linarith
  then show ?thesis
    unfolding days_before_year_def Y_def [symmetric] Y'_def [symmetric]
      q4_def q4'_def q100_def q100'_def q400_def q400'_def .
qed

lemma days_before_year_values:
  "days_before_year (- 2) = - 1096" "days_before_year (- 1) = - 731" "days_before_year 0 = - 366"
  "days_before_year 1970 = 719162" "days_before_year 10000 = 3652059"
  by (simp_all add: days_before_year_def)

lemma year_in_range:
  assumes "days_before_year y + yd = D"
    and "0 \<le> yd" and "yd < (if leap_year y then 366 else 365)"
    and "- 366 \<le> D" and "D < 3652059"
  shows "0 \<le> y \<and> y \<le> 9999"
proof -
  have "\<not> y \<le> - 2"
  proof
    assume "y \<le> - 2"
    from days_before_year_mono [OF this] have "days_before_year y \<le> - 1096"
      by (simp add: days_before_year_values)
    then show False using assms by (auto split: if_splits)
  qed
  moreover have "y \<noteq> - 1"
  proof
    assume y: "y = - 1"
    then have "\<not> leap_year y" by (simp add: leap_year_def)
    then show False using assms y by (simp add: days_before_year_values)
  qed
  moreover have "\<not> 10000 \<le> y"
  proof
    assume "10000 \<le> y"
    from days_before_year_mono [OF this] have "3652059 \<le> days_before_year y"
      by (simp add: days_before_year_values)
    then show False using assms by linarith
  qed
  ultimately show ?thesis by linarith
qed


subsection \<open>The formatted timestamp\<close>

lemma formatValue_CTime_unixSec:
  "formatValue (CTime t) = formatValue (CTime \<lparr>unixSec = unixSec t, nsec = 0, offset = 0, zone = []\<rparr>)"
  by (simp add: Format_Z_def Format_date_time_def abs_sec_def UTC_def)

lemma formatValue_example:
  "formatValue (CTime \<lparr>unixSec = 1704164645, nsec = 0, offset = 0, zone = []\<rparr>) =
     [CHR 0x27] @ ''2024-01-02T03:04:05Z'' @ [CHR 0x27]"
  by code_simp

lemma length_digits: "length (two_digits x) = 2" "length (four_digits x) = 4"
  by (simp_all add: two_digits_def four_digits_def)

text \<open>
  C3 (as amended).  In \<^verbatim>\<open>main.go\<close>, for every timestamp from 0000-01-01T00:00:00Z up
  to, but not including, 10000-01-01T00:00:00Z, the formatted value is a single quote,
  the 20 bytes \<^verbatim>\<open>YYYY-MM-DDTHH:MM:SSZ\<close> and a single quote, where the six fields are
  the date and the time of day in UTC of the second the timestamp falls in: they make
  a date of the calendar and a time of day, and the instant they denote is the
  timestamp's whole seconds.  The nanoseconds and the location of the value do not
  change the result (for a timestamp of any year), and the timestamp
  2024-01-02 03:04:05+00 is formatted as \<^verbatim>\<open>'2024-01-02T03:04:05Z'\<close>.
\<close>

theorem formatValue_timestamp:
  assumes "- 62167219200 \<le> unixSec t" and "unixSec t < 253402300800"
  shows "(\<exists>y m d hh mm ss.
            0 \<le> y \<and> y \<le> 9999 \<and> civil_time y m d hh mm ss \<and>
            civil_seconds y m d hh mm ss = unixSec t \<and>
            formatValue (CTime t) =
              [CHR 0x27] @ four_digits y @ ''-'' @ two_digits m @ ''-'' @ two_digits d @ ''T'' @
              two_digits hh @ '':'' @ two_digits mm @ '':'' @ two_digits ss @ ''Z'' @ [CHR 0x27])
       \<and> length (formatValue (CTime t)) = 22
       \<and> formatValue (CTime (t\<lparr>nsec := n, offset := off, zone := z\<rparr>)) = formatValue (CTime t)
       \<and> formatValue (CTime \<lparr>unixSec = 1704164645, nsec = n, offset = off, zone = z\<rparr>) =
           [CHR 0x27] @ ''2024-01-02T03:04:05Z'' @ [CHR 0x27]"
proof -
  define a where "a = abs_sec (UTC t)"
  have a: "a = unixSec t + 9223372028715321600"
    unfolding a_def by (rule abs_sec_UTC [OF assms])
  have a0: "0 \<le> a" using a assms by simp
  from absDate_eq [OF a0] obtain y m d where
    date: "absDate a = (y, m, d)" and m: "1 \<le> m" "m \<le> 12" and d: "1 \<le> d" "d \<le> month_length y m" and
    days: "days_before_year y + days_before_month y m + (d - 1) = a div 86400 - 146097 * 730692556" and
    yd: "0 \<le> days_before_month y m + (d - 1)"
      "days_before_month y m + (d - 1) < (if leap_year y then 366 else 365)"
    by blast
  from absClock_eq [of a] obtain hh mm ss where
    clock: "absClock a = (hh, mm, ss)" and
    c: "0 \<le> hh" "hh < 24" "0 \<le> mm" "mm < 60" "0 \<le> ss" "ss < 60" and
    secs: "hh * 3600 + mm * 60 + ss = a mod 86400"
    by blast
  define q where "q = a div 86400"
  have q: "86400 * q \<le> a" "a < 86400 * q + 86400"
    using div_bounds [of 86400 a] by (simp_all add: q_def)
  have split: "a = 86400 * q + a mod 86400"
    by (simp add: q_def)
  have D: "- 366 \<le> q - 146097 * 730692556" "q - 146097 * 730692556 < 3652059"
    using q a assms by linarith+
  have y: "0 \<le> y \<and> y \<le> 9999"
    by (rule year_in_range [of y "days_before_month y m + (d - 1)" "q - 146097 * 730692556"])
       (use days yd D in \<open>simp_all add: q_def\<close>)
  have civil: "civil_time y m d hh mm ss"
    using m d c by (simp add: civil_time_def)
  have "days_before_year y - days_before_year 1970 + days_before_month y m + (d - 1) =
      q - 106751991073094"
    using days by (simp add: days_before_year_values q_def)
  then have "civil_seconds y m d hh mm ss = (q - 106751991073094) * 86400 + a mod 86400"
    using secs by (simp only: civil_seconds_def)
  also have "\<dots> = 86400 * q + a mod 86400 - 9223372028715321600"
    by (simp add: algebra_simps)
  also have "\<dots> = unixSec t"
    using split a by linarith
  finally have instant: "civil_seconds y m d hh mm ss = unixSec t" .
  have dm: "d < 100"
    using d(2) by (simp add: month_length_def split: if_splits)
  have fmt: "formatValue (CTime t) =
      [CHR 0x27] @ four_digits y @ ''-'' @ two_digits m @ ''-'' @ two_digits d @ ''T'' @
      two_digits hh @ '':'' @ two_digits mm @ '':'' @ two_digits ss @ ''Z'' @ [CHR 0x27]"
    using y m d dm c
    by (simp add: Format_Z_def Format_date_time_def a_def [symmetric] date clock
        appendInt_four appendInt_two)
  have len: "length (formatValue (CTime t)) = 22"
    unfolding fmt by (simp add: length_digits)
  have indep: "formatValue (CTime (t\<lparr>nsec := n, offset := off, zone := z\<rparr>)) = formatValue (CTime t)"
    by (subst formatValue_CTime_unixSec, subst (2) formatValue_CTime_unixSec) simp
  have ex: "formatValue (CTime \<lparr>unixSec = 1704164645, nsec = n, offset = off, zone = z\<rparr>) =
           [CHR 0x27] @ ''2024-01-02T03:04:05Z'' @ [CHR 0x27]"
  proof -
    have "formatValue (CTime \<lparr>unixSec = 1704164645, nsec = n, offset = off, zone = z\<rparr>) =
        formatValue (CTime \<lparr>unixSec = 1704164645, nsec = 0, offset = 0, zone = []\<rparr>)"
      by (subst formatValue_CTime_unixSec) simp
    then show ?thesis by (simp only: formatValue_example)
  qed
  show ?thesis using y civil instant fmt len indep ex by blast
qed

theorem formatValue_timestamp_witness:
  "- 62167219200 \<le> unixSec \<lparr>unixSec = 1709251199, nsec = 999999999, offset = - 18000, zone = ''EST''\<rparr>
   \<and> unixSec \<lparr>unixSec = 1709251199, nsec = 999999999, offset = - 18000, zone = ''EST''\<rparr> < 253402300800
   \<and> formatValue (CTime \<lparr>unixSec = 1709251199, nsec = 999999999, offset = - 18000, zone = ''EST''\<rparr>) =
       [CHR 0x27] @ ''2024-02-29T23:59:59Z'' @ [CHR 0x27]
   \<and> length (formatValue (CTime \<lparr>unixSec = 1709251199, nsec = 999999999, offset = - 18000, zone = ''EST''\<rparr>)) = 22
   \<and> civil_time 2024 2 29 23 59 59 \<and> civil_seconds 2024 2 29 23 59 59 = 1709251199"
proof -
  let ?t = "\<lparr>unixSec = 1709251199, nsec = 999999999, offset = - 18000, zone = ''EST''\<rparr>"
  have lo: "- 62167219200 \<le> unixSec ?t" and hi: "unixSec ?t < 253402300800"
    by simp_all
  have e0: "formatValue (CTime \<lparr>unixSec = 1709251199, nsec = 0, offset = 0, zone = []\<rparr>) =
      [CHR 0x27] @ ''2024-02-29T23:59:59Z'' @ [CHR 0x27]"
    by code_simp
  have "formatValue (CTime ?t) =
      formatValue (CTime \<lparr>unixSec = 1709251199, nsec = 0, offset = 0, zone = []\<rparr>)"
    by (subst formatValue_CTime_unixSec) simp
  then have e: "formatValue (CTime ?t) = [CHR 0x27] @ ''2024-02-29T23:59:59Z'' @ [CHR 0x27]"
    by (simp only: e0)
  have c: "civil_time 2024 2 29 23 59 59 \<and> civil_seconds 2024 2 29 23 59 59 = 1709251199"
    by code_simp
  show ?thesis
    using formatValue_timestamp [OF lo hi] e c by simp
qed

text \<open>
  The claim as stated fails at the first second of the year 10000, whose year has five
  digits, and in the variant, whose type switch has no case for timestamps: there the
  timestamp 2024-01-02 03:04:05+00 is printed by \<^verbatim>\<open>%v\<close>.
\<close>

theorem timestamp_other_formats:
  "formatValue (CTime \<lparr>unixSec = 253402300800, nsec = 0, offset = 0, zone = ''UTC''\<rparr>) =
     [CHR 0x27] @ ''10000-01-01T00:00:00Z'' @ [CHR 0x27]
   \<and> v0_formatValue (CTime \<lparr>unixSec = 1704164645, nsec = 0, offset = 0, zone = ''UTC''\<rparr>) =
     [CHR 0x27] @ ''2024-01-02 03:04:05 +0000 UTC'' @ [CHR 0x27]"
proof -
  have s: "abs_sec (UTC \<lparr>unixSec = 253402300800, nsec = 0, offset = 0, zone = ''UTC''\<rparr>) =
      9223372282117622400"
    by (simp add: abs_sec_def UTC_def unixToAbsolute)
  have d: "absDate 9223372282117622400 = (10000, 1, 1)"
    by code_simp
  have c: "absClock 9223372282117622400 = (0, 0, 0)"
    by code_simp
  have y: "appendInt 10000 4 = ''10000''" "appendInt 1 2 = ''01''" "appendInt 0 2 = ''00''"
    by (simp_all add: appendInt_def decimal.simps digit_def replicate_small)
  have a: "formatValue (CTime \<lparr>unixSec = 253402300800, nsec = 0, offset = 0, zone = ''UTC''\<rparr>) =
     [CHR 0x27] @ ''10000-01-01T00:00:00Z'' @ [CHR 0x27]"
    by (simp add: Format_Z_def Format_date_time_def s d c y)
  have b: "v0_formatValue (CTime \<lparr>unixSec = 1704164645, nsec = 0, offset = 0, zone = ''UTC''\<rparr>) =
     [CHR 0x27] @ ''2024-01-02 03:04:05 +0000 UTC'' @ [CHR 0x27]"
    by code_simp
  show ?thesis using a b by (rule conjI)
qed


section \<open>The statements of a table\<close>

lemma Join_comma_list: "Join xs '', '' = comma_list xs"
  by (induction xs "'', ''" rule: Join.induct) simp_all

lemma Sprintf_insert_statement:
  "Sprintf_insert table (Join cols '', '') (Join lits '', '') = insert_statement table cols lits"
  by (simp add: Sprintf_insert_def insert_statement_def Join_comma_list)

lemma v0_Sprintf_insert_statement:
  "v0_Sprintf_insert table (Join cols '', '') (Join lits '', '') =
     ''-- Insert for '' @ table @ ''\<newline>'' @ insert_statement table cols lits @ ''\<newline>''"
  by (simp add: v0_Sprintf_insert_def insert_statement_def Join_comma_list)

lemma Scan_ok: "length r = n \<Longrightarrow> Scan n (Inr r) = Inr r"
  by (simp add: Scan_def)

lemma insert_rows_ok:
  "list_all (\<lambda>r. length r = length cols) rs \<Longrightarrow>
   insert_rows table cols (map Inr rs) out =
     Inr (out @ concat (map (\<lambda>r. insert_statement table cols (map formatValue r)) rs))"
  by (induction rs arbitrary: out) (simp_all add: Scan_ok Sprintf_insert_statement)

lemma runDump_rows_ok:
  "list_all (\<lambda>r. length r = length cols) rs \<Longrightarrow>
   fst (runDump_rows table cols file (map Inr rs) s) = Ok () \<and>
   stdout (snd (runDump_rows table cols file (map Inr rs) s)) =
     stdout s @ concat (map (\<lambda>r. ''-- Insert for '' @ table @ ''\<newline>'' @
        insert_statement table cols (map v0_formatValue r) @ ''\<newline>'') rs)"
proof (induction rs arbitrary: s)
  case Nil
  show ?case by simp
next
  case (Cons r rs)
  then have l: "length r = length cols" and ls: "list_all (\<lambda>r. length r = length cols) rs"
    by simp_all
  show ?case
    using Cons.IH [OF ls]
    by (cases "file") (simp_all add: Scan_ok [OF l] v0_Sprintf_insert_statement Let_def)
qed

lemma set_comma_list: "set (comma_list xs) \<subseteq> \<Union> (set ` set xs) \<union> set '', ''"
  by (cases xs) auto

lemma no_newline_comma_list: "list_all no_newline xs \<Longrightarrow> no_newline (comma_list xs)"
  using set_comma_list [of xs] by (auto simp: no_newline_def list_all_iff)

lemma single_line_insert_statement:
  assumes "no_newline table" "list_all no_newline cols" "list_all no_newline lits"
  shows "single_line (insert_statement table cols lits)"
proof -
  have c: "no_newline (comma_list cols)" and l: "no_newline (comma_list lits)"
    using assms by (simp_all add: no_newline_comma_list)
  have "insert_statement table cols lits =
      (''INSERT INTO \"'' @ table @ ''\" ('' @ comma_list cols @ '') VALUES ('' @ comma_list lits @ '');'')
      @ ''\<newline>''"
    by (simp add: insert_statement_def)
  moreover have "no_newline (''INSERT INTO \"'' @ table @ ''\" ('' @ comma_list cols @
      '') VALUES ('' @ comma_list lits @ '');'')"
    using assms(1) c l by (simp add: no_newline_def)
  ultimately show ?thesis
    unfolding single_line_def by (simp only: butlast_snoc last_snoc) simp
qed

text \<open>
  C1 (as amended).  When the query succeeds with the columns \<open>cols\<close> and the rows \<open>rs\<close>,
  each row with as many values as there are columns, \<^verbatim>\<open>generateInsertStatements\<close>
  returns the concatenation of one statement per row, in the order of the rows; each
  statement is the text \<^verbatim>\<open>INSERT INTO "<table>" (<col1>, ..., <colM>) VALUES (<lit1>, ..., <litM>);\<close>
  and a newline, the literals being the formatted values of the row in the order of
  the columns.  A statement is a single line when the table name, the column names
  and the literals contain no newline.  The variant \<^verbatim>\<open>runDump\<close> prints the same
  statements, each after a line \<^verbatim>\<open>-- Insert for <table>\<close> and before an empty line.
\<close>

theorem insert_statements_of_rows:
  assumes "Query db query param = Inr rows"
    and "Columns rows = Inr cols"
    and "fetched rows = map Inr rs"
    and "list_all (\<lambda>r. length r = length cols) rs"
  shows "generateInsertStatements db query table param =
           Inr (concat (map (\<lambda>r. insert_statement table cols (map formatValue r)) rs))
       \<and> length (map (\<lambda>r. insert_statement table cols (map formatValue r)) rs) = length rs
       \<and> list_all (\<lambda>r. length (map formatValue r) = length cols \<and>
            (\<forall>i < length cols. map formatValue r ! i = formatValue (r ! i))) rs
       \<and> (no_newline table \<and> list_all no_newline cols \<and>
            list_all (\<lambda>r. list_all no_newline (map formatValue r)) rs \<longrightarrow>
            list_all (\<lambda>r. single_line (insert_statement table cols (map formatValue r))) rs)
       \<and> fst (runDump db query table param file s) = Ok ()
       \<and> stdout (snd (runDump db query table param file s)) =
           stdout s @ concat (map (\<lambda>r. ''-- Insert for '' @ table @ ''\<newline>'' @
             insert_statement table cols (map v0_formatValue r) @ ''\<newline>'') rs)"
proof -
  have g: "generateInsertStatements db query table param =
           Inr (concat (map (\<lambda>r. insert_statement table cols (map formatValue r)) rs))"
    using assms insert_rows_ok [OF assms(4), of table "[]"]
    by (simp add: generateInsertStatements_def)
  have v: "list_all (\<lambda>r. length (map formatValue r) = length cols \<and>
            (\<forall>i < length cols. map formatValue r ! i = formatValue (r ! i))) rs"
    using assms(4) by (simp add: list_all_iff)
  have l: "no_newline table \<and> list_all no_newline cols \<and>
            list_all (\<lambda>r. list_all no_newline (map formatValue r)) rs \<longrightarrow>
            list_all (\<lambda>r. single_line (insert_statement table cols (map formatValue r))) rs"
    by (auto simp: list_all_iff intro!: single_line_insert_statement)
  have r: "fst (runDump db query table param file s) = Ok ()
       \<and> stdout (snd (runDump db query table param file s)) =
           stdout s @ concat (map (\<lambda>r. ''-- Insert for '' @ table @ ''\<newline>'' @
             insert_statement table cols (map v0_formatValue r) @ ''\<newline>'') rs)"
    using assms(1-3)
      runDump_rows_ok [OF assms(4), of table "file" "s\<lparr>events := events s @ [EvQuery query param]\<rparr>"]
    by (simp add: runDump_def Let_def)
  show ?thesis using g v l r by simp
qed

theorem insert_statements_of_rows_witness:
  "generateInsertStatements (db_with two_users) ''SELECT * FROM users WHERE id = $1'' ''users'' ''42'' =
     Inr (''INSERT INTO \"users\" (id, name, admin) VALUES ('1', 'Ann', true);\<newline>'' @
          ''INSERT INTO \"users\" (id, name, admin) VALUES ('2', NULL, false);\<newline>'')
   \<and> single_line ''INSERT INTO \"users\" (id, name, admin) VALUES ('1', 'Ann', true);\<newline>''
   \<and> single_line ''INSERT INTO \"users\" (id, name, admin) VALUES ('2', NULL, false);\<newline>''
   \<and> stdout (snd (runDump (db_with two_users) ''SELECT * FROM users WHERE id = $1'' ''users'' ''42''
         None start)) =
       ''-- Insert for users\<newline>'' @
       ''INSERT INTO \"users\" (id, name, admin) VALUES ('1', 'Ann', true);\<newline>\<newline>'' @
       ''-- Insert for users\<newline>'' @
       ''INSERT INTO \"users\" (id, name, admin) VALUES ('2', NULL, false);\<newline>\<newline>''"
proof -
  have q: "Query (db_with two_users) ''SELECT * FROM users WHERE id = $1'' ''42'' = Inr two_users"
    by (simp add: db_with_def)
  have c: "Columns two_users = Inr [''id'', ''name'', ''admin'']"
    by (simp add: two_users_def)
  have f: "fetched two_users =
      map Inr [[COther ''1'', CBytes ''Ann'', CBool True], [COther ''2'', CNil, CBool False]]"
    by (simp add: two_users_def)
  have m: "list_all (\<lambda>r. length r = length [''id'', ''name'', ''admin''])
      [[COther ''1'', CBytes ''Ann'', CBool True], [COther ''2'', CNil, CBool False]]"
    by simp
  show ?thesis
    using insert_statements_of_rows [OF q c f m, of "''users''" None start]
    by (simp add: insert_statement_def no_newline_def escapeSingleQuotes_def start_def)
qed

text \<open>
  The claim as stated fails for a text value with a newline in it: the statement of
  that row is two lines.
\<close>

theorem insert_statement_two_lines:
  "generateInsertStatements (db_with two_line_bio) ''SELECT * FROM users WHERE id = $1'' ''users'' ''42'' =
     Inr ''INSERT INTO \"users\" (bio) VALUES ('a\<newline>b');\<newline>''
   \<and> \<not> single_line ''INSERT INTO \"users\" (bio) VALUES ('a\<newline>b');\<newline>''"
  by (simp add: generateInsertStatements_def db_with_def two_line_bio_def Scan_def
      Sprintf_insert_def escapeSingleQuotes_def single_line_def no_newline_def)

section \<open>A query without rows\<close>

text \<open>
  C9.  When the query of a table succeeds, the columns are read and there is no row,
  \<^verbatim>\<open>generateInsertStatements\<close> returns the empty text and no error.
\<close>

theorem zero_rows_empty_block:
  assumes "Query db query param = Inr rows" and "Columns rows = Inr cols" and "fetched rows = []"
  shows "generateInsertStatements db query table param = Inr []"
  using assms by (simp add: generateInsertStatements_def)

theorem zero_rows_empty_block_witness:
  "Query empty_db ''SELECT * FROM app_auth_tokens WHERE user_id = $1'' ''42''
     = Inr \<lparr>Columns = Inr [''id''], fetched = [], rows_Err = None\<rparr>
   \<and> generateInsertStatements empty_db ''SELECT * FROM app_auth_tokens WHERE user_id = $1''
       ''app_auth_tokens'' ''42'' = Inr []"
proof -
  have q: "Query empty_db ''SELECT * FROM app_auth_tokens WHERE user_id = $1'' ''42''
     = Inr \<lparr>Columns = Inr [''id''], fetched = [], rows_Err = None\<rparr>"
    by (simp add: empty_db_def)
  show ?thesis
    using q zero_rows_empty_block [OF q, of "[''id'']" "''app_auth_tokens''"] by simp
qed

section \<open>Resolving the identifier\<close>

lemma connectDB_configured:
  "configured w \<Longrightarrow> connectDB w s = (Ok (), s\<lparr>events := events s @ [Open]\<rparr>)"
  by (auto simp: configured_def connectDB_def)

lemma setupDB_configured:
  "configured w \<Longrightarrow> setupDB w s = (Ok (), s\<lparr>events := events s @ [Open]\<rparr>)"
  by (auto simp: configured_def setupDB_def)

lemma configured_empty_db: "configured empty_db"
  by (simp add: configured_def empty_db_def)

text \<open>
  C6.  When both \<^verbatim>\<open>--user_id\<close> and \<^verbatim>\<open>--account_id\<close> are given (non-empty), the run
  ends with the usage error in the initial state: no database handle has been opened,
  no query issued and nothing printed.
\<close>

theorem both_identifiers_usage_error:
  assumes "userIDFlag f \<noteq> []" and "accountIDFlag f \<noteq> []"
  shows "main w f =
     (Fatal (''Provide either --user_id or --account_id, not both. Or pass a '' @
             ''positional argument (assumed to be user_id by default).''), start)
     \<and> events (snd (main w f)) = [] \<and> stdout (snd (main w f)) = []"
  using assms by (simp add: main_def main_resolve_def start_def)

theorem both_identifiers_usage_error_witness:
  "main one_user_db \<lparr>outputToFile = False, userIDFlag = ''U1'', accountIDFlag = ''A1'', Args = []\<rparr> =
     (Fatal (''Provide either --user_id or --account_id, not both. Or pass a '' @
             ''positional argument (assumed to be user_id by default).''), start)
   \<and> events (snd (main one_user_db
        \<lparr>outputToFile = False, userIDFlag = ''U1'', accountIDFlag = ''A1'', Args = []\<rparr>)) = []"
  using both_identifiers_usage_error
    [of "\<lparr>outputToFile = False, userIDFlag = ''U1'', accountIDFlag = ''A1'', Args = []\<rparr>" one_user_db]
  by (simp add: start_def)

text \<open>
  C7.  With a database handle available and the user identifier \<open>u\<close> given by
  \<^verbatim>\<open>--user_id\<close> or as the single positional argument: the users table is asked for
  \<open>u\<close>; when the row is found, \<open>u\<close> itself is the resolved user identifier; when there
  is no such row, the run ends with the message that names \<open>u\<close>, and no query of
  the dump has been issued.
\<close>

theorem user_identifier_resolution:
  assumes "configured w"
    and "f = \<lparr>outputToFile = out, userIDFlag = u, accountIDFlag = [], Args = []\<rparr> \<and> u \<noteq> [] \<or>
         f = \<lparr>outputToFile = out, userIDFlag = [], accountIDFlag = [], Args = [u]\<rparr>"
  shows "(QueryRow w ''SELECT id FROM users WHERE id = $1'' u = Inr ident \<longrightarrow>
            main_resolve w f start =
              (Ok u, start\<lparr>events := [Open, EvQueryRow ''SELECT id FROM users WHERE id = $1'' u]\<rparr>))
       \<and> (QueryRow w ''SELECT id FROM users WHERE id = $1'' u = Inl ErrNoRows \<longrightarrow>
            main w f =
              (Fatal (''Could not find user_id '' @ u @ '' in the database.''),
               start\<lparr>events := [Open, EvQueryRow ''SELECT id FROM users WHERE id = $1'' u],
                     stdout := ''sql: no rows in result set\<newline>''\<rparr>))"
  using assms(2) connectDB_configured [OF assms(1), of start]
  by (auto simp: main_def main_resolve_def userExists_def start_def Let_def)


theorem user_identifier_resolution_witness:
  "main_resolve one_user_db \<lparr>outputToFile = False, userIDFlag = ''U1'', accountIDFlag = [], Args = []\<rparr> start =
     (Ok ''U1'', start\<lparr>events := [Open, EvQueryRow ''SELECT id FROM users WHERE id = $1'' ''U1'']\<rparr>)
   \<and> main empty_db \<lparr>outputToFile = False, userIDFlag = [], accountIDFlag = [], Args = [''U1'']\<rparr> =
     (Fatal ''Could not find user_id U1 in the database.'',
      start\<lparr>events := [Open, EvQueryRow ''SELECT id FROM users WHERE id = $1'' ''U1''],
            stdout := ''sql: no rows in result set\<newline>''\<rparr>)"
proof -
  have c1: "configured one_user_db" by (simp add: configured_def one_user_db_def empty_db_def)
  have c2: "configured empty_db" by (simp add: configured_def empty_db_def)
  have q1: "QueryRow one_user_db ''SELECT id FROM users WHERE id = $1'' ''U1'' = Inr ''U1''"
    by (simp add: one_user_db_def)
  have q2: "QueryRow empty_db ''SELECT id FROM users WHERE id = $1'' ''U1'' = Inl ErrNoRows"
    by (simp add: empty_db_def)
  have f1: "\<lparr>outputToFile = False, userIDFlag = ''U1'', accountIDFlag = [], Args = []\<rparr> =
        \<lparr>outputToFile = False, userIDFlag = ''U1'', accountIDFlag = [], Args = []\<rparr> \<and> ''U1'' \<noteq> [] \<or>
      \<lparr>outputToFile = False, userIDFlag = ''U1'', accountIDFlag = [], Args = []\<rparr> =
        \<lparr>outputToFile = False, userIDFlag = [], accountIDFlag = [], Args = [''U1'']\<rparr>"
    by simp
  have f2: "\<lparr>outputToFile = False, userIDFlag = [], accountIDFlag = [], Args = [''U1'']\<rparr> =
        \<lparr>outputToFile = False, userIDFlag = ''U1'', accountIDFlag = [], Args = []\<rparr> \<and> ''U1'' \<noteq> [] \<or>
      \<lparr>outputToFile = False, userIDFlag = [], accountIDFlag = [], Args = [''U1'']\<rparr> =
        \<lparr>outputToFile = False, userIDFlag = [], accountIDFlag = [], Args = [''U1'']\<rparr>"
    by simp
  show ?thesis
    using user_identifier_resolution [OF c1 f1, where ident = "''U1''"] user_identifier_resolution [OF c2 f2] q1 q2
    by simp
qed

text \<open>
  C8 (as amended).  With a database handle available and the account identifier \<open>a\<close>
  given by \<^verbatim>\<open>--account_id\<close>: the accounts table is asked for the user of \<open>a\<close> with
  one single-row query; the user identifier found is the resolved identifier; when
  the lookup fails, the run ends with a message that names \<open>a\<close> and carries the
  error of the lookup.  In the variant, where the account identifier is the positional
  argument, the message of the failed lookup carries the error only.
\<close>

theorem account_identifier_resolution:
  assumes "configured w"
    and "f = \<lparr>outputToFile = out, userIDFlag = [], accountIDFlag = a, Args = []\<rparr>"
    and "a \<noteq> []"
  shows "(QueryRow w ''SELECT user_id FROM accounts WHERE id = $1'' a = Inr userID \<longrightarrow>
            main_resolve w f start =
              (Ok userID, start\<lparr>events := [Open, EvQueryRow ''SELECT user_id FROM accounts WHERE id = $1'' a]\<rparr>))
       \<and> (QueryRow w ''SELECT user_id FROM accounts WHERE id = $1'' a = Inl err \<longrightarrow>
            main w f =
              (Fatal (''Could not find user_id associated with account_id '' @ a @ '': '' @ Error err),
               start\<lparr>events := [Open, EvQueryRow ''SELECT user_id FROM accounts WHERE id = $1'' a]\<rparr>))
       \<and> (QueryRow w ''SELECT user_id FROM accounts WHERE id = $1'' a = Inl err \<longrightarrow>
            v0_main w argv0 out [a] =
              (Fatal (''Failed to look up user_id: '' @ Error err),
               start\<lparr>events := [Open, EvQueryRow ''SELECT user_id FROM accounts WHERE id = $1'' a]\<rparr>))"
  using assms(2,3) connectDB_configured [OF assms(1), of start] setupDB_configured [OF assms(1), of start]
  by (auto simp: main_def main_resolve_def getUserIDFromAccountID_def v0_main_def lookupUserID_def
      start_def Let_def)

theorem account_identifier_resolution_witness:
  "main_resolve one_user_db \<lparr>outputToFile = False, userIDFlag = [], accountIDFlag = ''A1'', Args = []\<rparr> start =
     (Ok ''U1'', start\<lparr>events := [Open, EvQueryRow ''SELECT user_id FROM accounts WHERE id = $1'' ''A1'']\<rparr>)
   \<and> main empty_db \<lparr>outputToFile = False, userIDFlag = [], accountIDFlag = ''A1'', Args = []\<rparr> =
     (Fatal ''Could not find user_id associated with account_id A1: sql: no rows in result set'',
      start\<lparr>events := [Open, EvQueryRow ''SELECT user_id FROM accounts WHERE id = $1'' ''A1'']\<rparr>)"
proof -
  have c1: "configured one_user_db" by (simp add: configured_def one_user_db_def empty_db_def)
  have c2: "configured empty_db" by (simp add: configured_def empty_db_def)
  have q1: "QueryRow one_user_db ''SELECT user_id FROM accounts WHERE id = $1'' ''A1'' = Inr ''U1''"
    by (simp add: one_user_db_def)
  have q2: "QueryRow empty_db ''SELECT user_id FROM accounts WHERE id = $1'' ''A1'' = Inl ErrNoRows"
    by (simp add: empty_db_def)
  have n: "''A1'' \<noteq> []" by simp
  show ?thesis
    using account_identifier_resolution [OF c1 refl n, where out = False and userID = "''U1''"]
      account_identifier_resolution [OF c2 refl n, where out = False and err = ErrNoRows] q1 q2
    by simp
qed

text \<open>
  The claim as stated fails in the variant: the message of \<^verbatim>\<open>lookupUserID\<close> for an
  account that does not exist is the same for every account identifier.
\<close>

theorem lookupUserID_message:
  "v0_main empty_db ''dump'' False [''A1''] =
     (Fatal ''Failed to look up user_id: sql: no rows in result set'',
      start\<lparr>events := [Open, EvQueryRow ''SELECT user_id FROM accounts WHERE id = $1'' ''A1'']\<rparr>)
   \<and> fst (v0_main empty_db ''dump'' False [''A2'']) =
     Fatal ''Failed to look up user_id: sql: no rows in result set''"
  by (simp add: v0_main_def setupDB_def lookupUserID_def empty_db_def start_def)

text \<open>
  C10.  With a database handle available, \<^verbatim>\<open>userExists\<close> returns true exactly when
  the single-row lookup returns no error, and false for every error; so whatever the
  error of the lookup is, \<^verbatim>\<open>main\<close> ends with the same message, that the user
  identifier could not be found.
\<close>

theorem userExists_any_error:
  assumes "configured w"
  shows "fst (userExists w u s) = Ok (case QueryRow w ''SELECT id FROM users WHERE id = $1'' u of
            Inr ident \<Rightarrow> True | Inl err \<Rightarrow> False)
       \<and> (QueryRow w ''SELECT id FROM users WHERE id = $1'' u = Inl err \<and>
          (f = \<lparr>outputToFile = out, userIDFlag = u, accountIDFlag = [], Args = []\<rparr> \<and> u \<noteq> [] \<or>
           f = \<lparr>outputToFile = out, userIDFlag = [], accountIDFlag = [], Args = [u]\<rparr>) \<longrightarrow>
          fst (main w f) = Fatal (''Could not find user_id '' @ u @ '' in the database.''))"
  using connectDB_configured [OF assms, of start] connectDB_configured [OF assms, of s]
  by (auto simp: main_def main_resolve_def userExists_def start_def Let_def split: sum.splits)

theorem userExists_any_error_witness:
  "fst (userExists refusing_db ''U1'' start) = Ok False
   \<and> fst (userExists empty_db ''U1'' start) = Ok False
   \<and> fst (userExists one_user_db ''U1'' start) = Ok True
   \<and> fst (main refusing_db \<lparr>outputToFile = False, userIDFlag = ''U1'', accountIDFlag = [], Args = []\<rparr>) =
       Fatal ''Could not find user_id U1 in the database.''
   \<and> fst (main empty_db \<lparr>outputToFile = False, userIDFlag = ''U1'', accountIDFlag = [], Args = []\<rparr>) =
       Fatal ''Could not find user_id U1 in the database.''"
proof -
  have c0: "configured refusing_db" by (simp add: configured_def refusing_db_def empty_db_def)
  have c1: "configured one_user_db" by (simp add: configured_def one_user_db_def empty_db_def)
  have c2: "configured empty_db" by (simp add: configured_def empty_db_def)
  have q0: "QueryRow refusing_db ''SELECT id FROM users WHERE id = $1'' ''U1'' =
      Inl (Err ''dial tcp 127.0.0.1:5432: connect: connection refused'')"
    by (simp add: refusing_db_def)
  have q1: "QueryRow one_user_db ''SELECT id FROM users WHERE id = $1'' ''U1'' = Inr ''U1''"
    by (simp add: one_user_db_def)
  have q2: "QueryRow empty_db ''SELECT id FROM users WHERE id = $1'' ''U1'' = Inl ErrNoRows"
    by (simp add: empty_db_def)
  show ?thesis
    using userExists_any_error [OF c0, where u = "''U1''" and s = start and out = False
        and err = "Err ''dial tcp 127.0.0.1:5432: connect: connection refused''"
        and f = "\<lparr>outputToFile = False, userIDFlag = ''U1'', accountIDFlag = [], Args = []\<rparr>"]
      userExists_any_error [OF c2, where u = "''U1''" and s = start and out = False and err = ErrNoRows
        and f = "\<lparr>outputToFile = False, userIDFlag = ''U1'', accountIDFlag = [], Args = []\<rparr>"]
      userExists_any_error [OF c1, where u = "''U1''" and s = start]
      q0 q1 q2
    by simp
qed

section \<open>The dump of the tables\<close>

lemma dump_tables_output:
  "fst (dump_tables db u ts (out, s)) = out @ concat (map (table_block db u) ts)"
  by (induction ts arbitrary: out s) (simp_all add: table_block_def Let_def split: sum.splits)

lemma dump_tables_state:
  "stdout (snd (dump_tables db u ts (out, s))) = stdout s \<and>
   files (snd (dump_tables db u ts (out, s))) = files s \<and>
   logged (snd (dump_tables db u ts (out, s))) = logged s @ concat (map (table_warning db u) ts) \<and>
   events (snd (dump_tables db u ts (out, s))) = events s @ map (\<lambda>t. EvQuery (map_index queries t) u) ts"
  by (induction ts arbitrary: out s) (simp_all add: table_warning_def Let_def split: sum.splits)

lemma insert_rows_failure:
  "list_ex (\<lambda>r. isl (Scan (length cols) r)) rs \<Longrightarrow> isl (insert_rows table cols rs out)"
  by (induction rs arbitrary: out) (auto split: sum.splits)

lemma main_dump_stdout:
  assumes "configured w"
  shows "stdout (snd (main_dump w f u s)) =
     stdout s @ concat (map (table_block w u) (sort (range_keys w))) @
     (if outputToFile f \<and> file_error w (''user_'' @ u @ ''_dump.sql'') = None
      then ''Wrote SQL output to '' @ ''user_'' @ u @ ''_dump.sql'' @ ''\<newline>'' else [])"
proof -
  obtain out s2 where d: "dump_tables w u (sort (range_keys w)) ([], s\<lparr>events := events s @ [Open]\<rparr>) = (out, s2)"
    by (cases "dump_tables w u (sort (range_keys w)) ([], s\<lparr>events := events s @ [Open]\<rparr>)")
  have o: "out = concat (map (table_block w u) (sort (range_keys w)))"
    using dump_tables_output [of w u "sort (range_keys w)" "[]" "s\<lparr>events := events s @ [Open]\<rparr>"] d by simp
  have st: "stdout s2 = stdout s"
    using dump_tables_state [of w u "sort (range_keys w)" "[]" "s\<lparr>events := events s @ [Open]\<rparr>"] d by simp
  show ?thesis
    using connectDB_configured [OF assms, of s] d o st
    by (simp add: main_dump_def Let_def split: option.splits)
qed

lemma sort_keys:
  assumes "mset ks = mset (map fst queries)"
  shows "sort ks = [''accounts'', ''app_auth_tokens'', ''user_identities'', ''user_preferences'', ''users'']"
proof -
  have "sorted [''accounts'', ''app_auth_tokens'', ''user_identities'', ''user_preferences'', ''users'']"
    by simp
  moreover have "mset [''accounts'', ''app_auth_tokens'', ''user_identities'', ''user_preferences'', ''users''] = mset ks"
    unfolding assms by (simp add: queries_def)
  ultimately show ?thesis by (simp add: properties_for_sort)
qed


lemma generateInsertStatements_range_keys:
  "generateInsertStatements (w\<lparr>range_keys := ks\<rparr>) = generateInsertStatements w"
  by (intro ext) (simp add: generateInsertStatements_def)

lemma dump_tables_range_keys:
  "dump_tables (w\<lparr>range_keys := ks\<rparr>) u ts p = dump_tables w u ts p"
  by (induction w u ts p rule: dump_tables.induct)
     (simp_all add: generateInsertStatements_range_keys Let_def split: sum.splits)

lemma connectDB_range_keys: "connectDB (w\<lparr>range_keys := ks\<rparr>) = connectDB w"
  by (intro ext) (auto simp: connectDB_def split: option.splits)

lemma userExists_range_keys: "userExists (w\<lparr>range_keys := ks\<rparr>) = userExists w"
  by (intro ext)
     (simp add: userExists_def connectDB_range_keys Let_def split: prod.splits result.splits sum.splits)

lemma getUserIDFromAccountID_range_keys:
  "getUserIDFromAccountID (w\<lparr>range_keys := ks\<rparr>) = getUserIDFromAccountID w"
  by (intro ext)
     (simp add: getUserIDFromAccountID_def connectDB_range_keys Let_def
        split: prod.splits result.splits sum.splits)

lemma main_resolve_range_keys:
  "main_resolve (w\<lparr>range_keys := ks\<rparr>) f s = main_resolve w f s"
  by (simp add: main_resolve_def userExists_range_keys getUserIDFromAccountID_range_keys)

lemma main_dump_range_keys:
  "sort ks = sort ks' \<Longrightarrow>
   main_dump (w\<lparr>range_keys := ks\<rparr>) f u s = main_dump (w\<lparr>range_keys := ks'\<rparr>) f u s"
  by (simp add: main_dump_def connectDB_range_keys dump_tables_range_keys Let_def
      split: prod.splits result.splits option.splits)

lemma table_block_range_keys: "table_block (w\<lparr>range_keys := ks\<rparr>) = table_block w"
  by (intro ext) (simp add: table_block_def generateInsertStatements_range_keys)

lemma configured_range_keys: "configured (w\<lparr>range_keys := ks\<rparr>) = configured w"
  by (simp add: configured_def)

text \<open>
  C5 (as amended).  In \<^verbatim>\<open>main.go\<close>, whatever the order \<open>ks\<close> in which \<^verbatim>\<open>range\<close>
  enumerates the five keys of \<^verbatim>\<open>queries\<close>, the sorted keys are the table names in
  lexicographic order, the whole run is the same as for any other enumeration \<open>ks'\<close>, and
  the text printed is the blocks of the tables in lexicographic order of their names
  (followed by the line about the file when one is written).
\<close>

theorem tables_in_lexicographic_order:
  assumes "mset ks = mset (map fst queries)" and "mset ks' = mset (map fst queries)"
  shows "sort ks = [''accounts'', ''app_auth_tokens'', ''user_identities'', ''user_preferences'', ''users'']
       \<and> main (w\<lparr>range_keys := ks\<rparr>) f = main (w\<lparr>range_keys := ks'\<rparr>) f
       \<and> (configured w \<longrightarrow>
            stdout (snd (main_dump (w\<lparr>range_keys := ks\<rparr>) f u s)) =
              stdout s @
              concat (map (table_block w u)
                [''accounts'', ''app_auth_tokens'', ''user_identities'', ''user_preferences'', ''users'']) @
              (if outputToFile f \<and> file_error w (''user_'' @ u @ ''_dump.sql'') = None
               then ''Wrote SQL output to '' @ ''user_'' @ u @ ''_dump.sql'' @ ''\<newline>'' else []))"
proof -
  have k: "sort ks = [''accounts'', ''app_auth_tokens'', ''user_identities'', ''user_preferences'', ''users'']"
    by (rule sort_keys [OF assms(1)])
  have k': "sort ks' = sort ks"
    using sort_keys [OF assms(2)] k by simp
  have m: "main (w\<lparr>range_keys := ks\<rparr>) f = main (w\<lparr>range_keys := ks'\<rparr>) f"
    by (simp add: main_def main_resolve_range_keys main_dump_range_keys [OF k' [symmetric]]
        split: prod.splits result.splits)
  have d: "configured w \<longrightarrow>
            stdout (snd (main_dump (w\<lparr>range_keys := ks\<rparr>) f u s)) =
              stdout s @
              concat (map (table_block w u)
                [''accounts'', ''app_auth_tokens'', ''user_identities'', ''user_preferences'', ''users'']) @
              (if outputToFile f \<and> file_error w (''user_'' @ u @ ''_dump.sql'') = None
               then ''Wrote SQL output to '' @ ''user_'' @ u @ ''_dump.sql'' @ ''\<newline>'' else [])"
  proof
    assume "configured w"
    then have "configured (w\<lparr>range_keys := ks\<rparr>)" by (simp add: configured_range_keys)
    from main_dump_stdout [OF this, of f u s] show "stdout (snd (main_dump (w\<lparr>range_keys := ks\<rparr>) f u s)) =
              stdout s @
              concat (map (table_block w u)
                [''accounts'', ''app_auth_tokens'', ''user_identities'', ''user_preferences'', ''users'']) @
              (if outputToFile f \<and> file_error w (''user_'' @ u @ ''_dump.sql'') = None
               then ''Wrote SQL output to '' @ ''user_'' @ u @ ''_dump.sql'' @ ''\<newline>'' else [])"
      by (simp add: k table_block_range_keys)
  qed
  show ?thesis using k m d by blast
qed

lemma small_db_blocks:
  "table_block small_db ''U1'' ''accounts'' = ''-- Insert for accounts\<newline>INSERT INTO \"accounts\" (id) VALUES ('A1');\<newline>\<newline>''"
  "table_block small_db ''U1'' ''users'' = ''-- Insert for users\<newline>INSERT INTO \"users\" (id) VALUES ('U1');\<newline>\<newline>''"
  "table_block small_db ''U1'' ''app_auth_tokens'' = ''-- Insert for app_auth_tokens\<newline>\<newline>''"
  "table_block small_db ''U1'' ''user_identities'' = ''-- Insert for user_identities\<newline>\<newline>''"
  "table_block small_db ''U1'' ''user_preferences'' = ''-- Insert for user_preferences\<newline>\<newline>''"
  by (simp_all add: table_block_def generateInsertStatements_def map_index_def queries_def small_db_def
      Scan_def Sprintf_insert_def)

theorem tables_in_lexicographic_order_witness:
  "stdout (snd (main_dump
      (small_db\<lparr>range_keys := [''users'', ''accounts'', ''user_preferences'', ''app_auth_tokens'', ''user_identities'']\<rparr>)
      \<lparr>outputToFile = False, userIDFlag = ''U1'', accountIDFlag = [], Args = []\<rparr> ''U1'' start)) =
     ''-- Insert for accounts\<newline>INSERT INTO \"accounts\" (id) VALUES ('A1');\<newline>\<newline>'' @
     ''-- Insert for app_auth_tokens\<newline>\<newline>'' @
     ''-- Insert for user_identities\<newline>\<newline>'' @
     ''-- Insert for user_preferences\<newline>\<newline>'' @
     ''-- Insert for users\<newline>INSERT INTO \"users\" (id) VALUES ('U1');\<newline>\<newline>''"
proof -
  have p: "mset [''users'', ''accounts'', ''user_preferences'', ''app_auth_tokens'', ''user_identities'']
      = mset (map fst queries)"
    by (simp add: queries_def)
  have p': "mset (map fst queries) = mset (map fst queries)" by simp
  have c: "configured small_db"
    by (simp add: configured_def small_db_def one_user_db_def empty_db_def)
  show ?thesis
    using tables_in_lexicographic_order [OF p p', of small_db
        "\<lparr>outputToFile = False, userIDFlag = ''U1'', accountIDFlag = [], Args = []\<rparr>" "''U1''" start] c
    by (simp add: small_db_blocks start_def)
qed

text \<open>
  The claim as stated fails in the variant, which ranges over the map itself: two
  enumerations of the same keys give the blocks in two orders, the first of them not
  lexicographic.
\<close>

theorem v0_tables_in_enumeration_order:
  "stdout (snd (v0_main
      (small_db\<lparr>range_keys := [''users'', ''accounts'', ''app_auth_tokens'', ''user_identities'', ''user_preferences'']\<rparr>)
      ''dump'' False [''A1''])) =
     ''-- Insert for users\<newline>INSERT INTO \"users\" (id) VALUES ('U1');\<newline>\<newline>'' @
     ''-- Insert for accounts\<newline>INSERT INTO \"accounts\" (id) VALUES ('A1');\<newline>\<newline>''
   \<and> stdout (snd (v0_main
      (small_db\<lparr>range_keys := [''accounts'', ''app_auth_tokens'', ''user_identities'', ''user_preferences'', ''users'']\<rparr>)
      ''dump'' False [''A1''])) =
     ''-- Insert for accounts\<newline>INSERT INTO \"accounts\" (id) VALUES ('A1');\<newline>\<newline>'' @
     ''-- Insert for users\<newline>INSERT INTO \"users\" (id) VALUES ('U1');\<newline>\<newline>''"
  by (simp add: v0_main_def setupDB_def lookupUserID_def runDump_def map_index_def v0_queries_def
      small_db_def one_user_db_def empty_db_def start_def Scan_def v0_Sprintf_insert_def Let_def)


lemma runDump_rows_scan_failure:
  "list_all (\<lambda>r. length r = length cols) rs \<Longrightarrow>
   fst (runDump_rows table cols file (map Inr rs @ Inl err # rest) s) = Fatal (''Scan failed: '' @ Error err) \<and>
   stdout (snd (runDump_rows table cols file (map Inr rs @ Inl err # rest) s)) =
     stdout s @ concat (map (\<lambda>r. ''-- Insert for '' @ table @ ''\<newline>'' @
        insert_statement table cols (map v0_formatValue r) @ ''\<newline>'') rs)"
proof (induction rs arbitrary: s)
  case Nil
  show ?case by (simp add: Scan_def)
next
  case (Cons r rs)
  then have l: "length r = length cols" and ls: "list_all (\<lambda>r. length r = length cols) rs"
    by simp_all
  show ?case
    using Cons.IH [OF ls]
    by (cases "file") (simp_all add: Scan_ok [OF l] v0_Sprintf_insert_statement Let_def)
qed

text \<open>
  C4 (as amended).  In \<^verbatim>\<open>main.go\<close> the output of the table loop is the concatenation
  of the blocks of the tables, and that is what \<^verbatim>\<open>main\<close> prints; a warning is logged
  for every table whose dump returns an error.  The block of a table is empty when
  its query fails, when its columns cannot be read, or when the scan of any of its
  rows fails.  It is the header line, the statements of all rows and an empty line
  when every row is scanned and the iteration ends without an error
  (\<^verbatim>\<open>rows.Err()\<close> is nil).  Nothing is stated here for an iteration that ends with an
  error.  In the variant, \<^verbatim>\<open>runDump\<close> has printed the statements of the rows before a
  failing scan when the run ends with \<^verbatim>\<open>Scan failed\<close>.
\<close>

theorem table_block_whole_or_nothing:
  "fst (dump_tables db u ts (out, s)) = out @ concat (map (table_block db u) ts)
   \<and> logged (snd (dump_tables db u ts (out, s))) = logged s @ concat (map (table_warning db u) ts)
   \<and> (configured db \<longrightarrow>
        stdout (snd (main_dump db f u s)) =
          stdout s @ concat (map (table_block db u) (sort (range_keys db))) @
          (if outputToFile f \<and> file_error db (''user_'' @ u @ ''_dump.sql'') = None
           then ''Wrote SQL output to '' @ ''user_'' @ u @ ''_dump.sql'' @ ''\<newline>'' else []))
   \<and> (isl (Query db (map_index queries t) u) \<longrightarrow> table_block db u t = [])
   \<and> (Query db (map_index queries t) u = Inr rows \<and> isl (Columns rows) \<longrightarrow> table_block db u t = [])
   \<and> (Query db (map_index queries t) u = Inr rows \<and> Columns rows = Inr cols \<and>
        list_ex (\<lambda>r. isl (Scan (length cols) r)) (fetched rows) \<longrightarrow>
        table_block db u t = [])
   \<and> (Query db (map_index queries t) u = Inr rows \<and> Columns rows = Inr cols \<and>
        fetched rows = map Inr rs \<and> list_all (\<lambda>r. length r = length cols) rs \<and>
        rows_Err rows = None \<longrightarrow>
        table_block db u t =
          ''-- Insert for '' @ t @ ''\<newline>'' @
          concat (map (\<lambda>r. insert_statement t cols (map formatValue r)) rs) @ ''\<newline>'')
   \<and> (list_all (\<lambda>r. length r = length cols') rs' \<longrightarrow>
        fst (runDump_rows t cols' out_file (map Inr rs' @ Inl err # rest) s) =
          Fatal (''Scan failed: '' @ Error err) \<and>
        stdout (snd (runDump_rows t cols' out_file (map Inr rs' @ Inl err # rest) s)) =
          stdout s @ concat (map (\<lambda>r. ''-- Insert for '' @ t @ ''\<newline>'' @
            insert_statement t cols' (map v0_formatValue r) @ ''\<newline>'') rs'))"
proof -
  have a: "isl (Query db (map_index queries t) u) \<longrightarrow> table_block db u t = []"
    by (auto simp: table_block_def generateInsertStatements_def isl_def)
  have b: "Query db (map_index queries t) u = Inr rows \<and> isl (Columns rows) \<longrightarrow> table_block db u t = []"
    by (auto simp: table_block_def generateInsertStatements_def isl_def)
  have c: "Query db (map_index queries t) u = Inr rows \<and> Columns rows = Inr cols \<and>
        list_ex (\<lambda>r. isl (Scan (length cols) r)) (fetched rows) \<longrightarrow>
        table_block db u t = []"
    using insert_rows_failure [of cols "fetched rows" t "[]"]
    by (auto simp: table_block_def generateInsertStatements_def isl_def)
  have d: "Query db (map_index queries t) u = Inr rows \<and> Columns rows = Inr cols \<and>
        fetched rows = map Inr rs \<and> list_all (\<lambda>r. length r = length cols) rs \<and>
        rows_Err rows = None \<longrightarrow>
        table_block db u t =
          ''-- Insert for '' @ t @ ''\<newline>'' @
          concat (map (\<lambda>r. insert_statement t cols (map formatValue r)) rs) @ ''\<newline>''"
    using insert_rows_ok [of cols rs t "[]"]
    by (auto simp: table_block_def generateInsertStatements_def)
  show ?thesis
    using a b c d dump_tables_output [of db u ts out s] dump_tables_state [of db u ts out s]
      main_dump_stdout [of db f u s] runDump_rows_scan_failure [of cols' rs' t out_file err rest s]
    by blast
qed

theorem table_block_whole_or_nothing_witness:
  "table_block broken_db ''U1'' ''users'' = []
   \<and> table_block broken_db ''U1'' ''accounts'' =
       ''-- Insert for accounts\<newline>INSERT INTO \"accounts\" (id) VALUES ('A1');\<newline>\<newline>''
   \<and> stdout (snd (main_dump broken_db \<lparr>outputToFile = False, userIDFlag = ''U1'', accountIDFlag = [], Args = []\<rparr>
        ''U1'' start)) =
       ''-- Insert for accounts\<newline>INSERT INTO \"accounts\" (id) VALUES ('A1');\<newline>\<newline>'' @
       ''-- Insert for app_auth_tokens\<newline>\<newline>'' @
       ''-- Insert for user_identities\<newline>\<newline>'' @
       ''-- Insert for user_preferences\<newline>\<newline>''
   \<and> stdout (snd (runDump_rows ''users'' [''id'', ''name''] None
        (map Inr [[COther ''U1'', CBytes ''Ann'']] @ Inl (Err ''unexpected EOF'') # []) start)) =
       ''-- Insert for users\<newline>INSERT INTO \"users\" (id, name) VALUES ('U1', 'Ann');\<newline>\<newline>''"
proof -
  let ?users = "\<lparr>Columns = Inr [''id'', ''name''],
            fetched = [Inr [COther ''U1'', CBytes ''Ann''], Inl (Err ''unexpected EOF'')],
            rows_Err = None\<rparr>"
  let ?accounts = "\<lparr>Columns = Inr [''id''], fetched = [Inr [COther ''A1'']], rows_Err = None\<rparr>"
  let ?none = "\<lparr>Columns = Inr [''id''], fetched = ([] :: (error + cell list) list), rows_Err = None\<rparr>"
  have c: "configured broken_db"
    by (simp add: configured_def broken_db_def one_user_db_def empty_db_def)
  have k: "sort (range_keys broken_db) =
      [''accounts'', ''app_auth_tokens'', ''user_identities'', ''user_preferences'', ''users'']"
    by (rule sort_keys) (simp add: broken_db_def one_user_db_def empty_db_def queries_def)
  have qu: "Query broken_db (map_index queries ''users'') ''U1'' = Inr ?users \<and>
      Columns ?users = Inr [''id'', ''name''] \<and>
      list_ex (\<lambda>r. isl (Scan (length [''id'', ''name'']) r)) (fetched ?users)"
    by (simp add: broken_db_def map_index_def queries_def Scan_def)
  have qa: "Query broken_db (map_index queries ''accounts'') ''U1'' = Inr ?accounts \<and>
      Columns ?accounts = Inr [''id''] \<and> fetched ?accounts = map Inr [[COther ''A1'']] \<and>
      list_all (\<lambda>r. length r = length [''id'']) [[COther ''A1'']] \<and>
      rows_Err ?accounts = None"
    by (simp add: broken_db_def map_index_def queries_def)
  have e: "table_block broken_db ''U1'' ''app_auth_tokens'' = ''-- Insert for app_auth_tokens\<newline>\<newline>''"
    "table_block broken_db ''U1'' ''user_identities'' = ''-- Insert for user_identities\<newline>\<newline>''"
    "table_block broken_db ''U1'' ''user_preferences'' = ''-- Insert for user_preferences\<newline>\<newline>''"
    by (simp_all add: table_block_def generateInsertStatements_def map_index_def queries_def broken_db_def)
  have m: "list_all (\<lambda>r. length r = length [''id'', ''name'']) [[COther ''U1'', CBytes ''Ann'']]"
    by simp
  have u: "table_block broken_db ''U1'' ''users'' = []"
    using table_block_whole_or_nothing [where db = broken_db and u = "''U1''" and t = "''users''"
        and rows = ?users and cols = "[''id'', ''name'']"] qu
    by blast
  have a: "table_block broken_db ''U1'' ''accounts'' =
       ''-- Insert for accounts\<newline>INSERT INTO \"accounts\" (id) VALUES ('A1');\<newline>\<newline>''"
    using table_block_whole_or_nothing [where db = broken_db and u = "''U1''" and t = "''accounts''"
        and rows = ?accounts and cols = "[''id'']" and rs = "[[COther ''A1'']]"] qa
    by (simp add: insert_statement_def)
  have s: "stdout (snd (main_dump broken_db \<lparr>outputToFile = False, userIDFlag = ''U1'', accountIDFlag = [], Args = []\<rparr>
        ''U1'' start)) =
       ''-- Insert for accounts\<newline>INSERT INTO \"accounts\" (id) VALUES ('A1');\<newline>\<newline>'' @
       ''-- Insert for app_auth_tokens\<newline>\<newline>'' @
       ''-- Insert for user_identities\<newline>\<newline>'' @
       ''-- Insert for user_preferences\<newline>\<newline>''"
    using table_block_whole_or_nothing [where db = broken_db and u = "''U1''" and s = start
        and f = "\<lparr>outputToFile = False, userIDFlag = ''U1'', accountIDFlag = [], Args = []\<rparr>"] c
    by (simp add: k u a e start_def)
  have v: "stdout (snd (runDump_rows ''users'' [''id'', ''name''] None
        (map Inr [[COther ''U1'', CBytes ''Ann'']] @ Inl (Err ''unexpected EOF'') # []) start)) =
       ''-- Insert for users\<newline>INSERT INTO \"users\" (id, name) VALUES ('U1', 'Ann');\<newline>\<newline>''"
    using table_block_whole_or_nothing [where t = "''users''" and cols' = "[''id'', ''name'']"
        and rs' = "[[COther ''U1'', CBytes ''Ann'']]" and err = "Err ''unexpected EOF''" and rest = "[]"
        and out_file = None and s = start] m
    by (simp add: insert_statement_def start_def escapeSingleQuotes_def)
  show ?thesis using u a s v by blast
qed

text \<open>
  The claim as stated fails in the variant: the scan of the second row of \<^verbatim>\<open>users\<close>
  fails, and the statement of the first row is in the output.
\<close>

theorem runDump_partial_output:
  "fst (v0_main broken_db ''dump'' False [''A1'']) = Fatal ''Scan failed: unexpected EOF''
   \<and> stdout (snd (v0_main broken_db ''dump'' False [''A1''])) =
       ''-- Insert for users\<newline>INSERT INTO \"users\" (id, name) VALUES ('U1', 'Ann');\<newline>\<newline>''"
  by (simp add: v0_main_def setupDB_def lookupUserID_def runDump_def map_index_def v0_queries_def
      broken_db_def one_user_db_def empty_db_def start_def Scan_def v0_Sprintf_insert_def Let_def
      escapeSingleQuotes_def)

end
